theory Spec2Isabelle
  imports Main "HOL-Library.Sublist"
begin

section \<open>build-openmw: a shallow embedding of the build script\<close>

text \<open>
  The script \<^verbatim>\<open>build-openmw.py\<close> is a sequence of calls to external programs (git,
  cmake, make, a package manager) and to the file system, steered by command-line flags.
  The embedding makes every effect explicit:
  \<^item> the process state is a record \<open>world\<close>: the file system as a table from path
    strings to node kinds, the current directory, the user id, the environment, and a
    trace of the externally visible actions performed so far;
  \<^item> a Python exception (including \<^verbatim>\<open>SystemExit\<close>) is the left summand of the
    result, returned together with the world at the point where it was raised;
  \<^item> what an external program does is not known to the script, so it is a parameter
    (\<open>external\<close>): given the world and the command line it says whether the program
    could be started, its exit status, its output and the file system it leaves behind.
\<close>

subsection \<open>Python values, strings and paths\<close>

datatype pyval = PyNone | PyBool bool | PyStr string | PyBytes string

text \<open>Python truthiness of the values the script tests with \<^verbatim>\<open>if x:\<close>.\<close>

fun truthy :: "pyval \<Rightarrow> bool" where
  "truthy PyNone = False"
| "truthy (PyBool b) = b"
| "truthy (PyStr s) = (s \<noteq> [])"
| "truthy (PyBytes s) = (s \<noteq> [])"

text \<open>The apostrophe, which a string literal of the logic cannot hold.\<close>

definition sq :: string where
  "sq = [CHR 0x27]"

text \<open>\<^verbatim>\<open>sep.join(xs)\<close>.\<close>

fun str_join :: "string \<Rightarrow> string list \<Rightarrow> string" where
  "str_join sep [] = []"
| "str_join sep [x] = x"
| "str_join sep (x # y # ys) = x @ sep @ str_join sep (y # ys)"

text \<open>\<^verbatim>\<open>needle in hay\<close> on strings: \<open>needle\<close> occurs as a contiguous substring.\<close>

fun str_in :: "string \<Rightarrow> string \<Rightarrow> bool" where
  "str_in needle [] = (needle = [])"
| "str_in needle (c # cs) = (prefix needle (c # cs) \<or> str_in needle cs)"

text \<open>
  \<^verbatim>\<open>str.lower()\<close>, on ASCII: the distribution description is the output of
  \<^verbatim>\<open>lsb_release -d\<close>, modelled as a string of 8-bit characters.
\<close>

definition lower_char :: "char \<Rightarrow> char" where
  "lower_char c =
     (let n = (of_char c :: nat) in if 65 \<le> n \<and> n \<le> 90 then char_of (n + 32) else c)"

definition lower :: "string \<Rightarrow> string" where
  "lower s = map lower_char s"

text \<open>
  \<^verbatim>\<open>os.path.join(a, *p)\<close> of \<^verbatim>\<open>posixpath\<close>: an absolute component discards
  what came before it; a separator is inserted unless the path so far is empty or already
  ends with one.
\<close>

definition join1 :: "string \<Rightarrow> string \<Rightarrow> string" where
  "join1 path b =
     (if prefix ''/'' b then b
      else if path = [] \<or> last path = CHR ''/'' then path @ b
      else path @ ''/'' @ b)"

definition os_path_join :: "string \<Rightarrow> string list \<Rightarrow> string" where
  "os_path_join a p = foldl join1 a p"

text \<open>\<^verbatim>\<open>os.path.basename\<close>: what follows the last separator.\<close>

definition basename :: "string \<Rightarrow> string" where
  "basename p = rev (takeWhile (\<lambda>c. c \<noteq> CHR ''/'') (rev p))"

subsection \<open>The world\<close>

datatype node = File | Dir

type_synonym filesystem = "string \<Rightarrow> node option"

datatype level = DEBUG | INFO | WARN | ERROR

datatype exn =
    SystemExit int
  | FileNotFoundError
  | NotADirectoryError
  | IsADirectoryError
  | FileExistsError
  | TypeError
  | IndexError
  | AttributeError
  | UnboundLocalError

text \<open>
  The trace records what the process does to the outside: log records, writes to standard
  error, every attempt to start a program (with its exit status, or \<open>None\<close> when the
  program could not be started), every \<^verbatim>\<open>os.system\<close> call and every call that changes
  the file system.
\<close>

datatype event =
    Log level pyval
  | Stderr string
  | Exec "string list" "int option"
  | System string int
  | Rmtree string
  | Mkdir string
  | Makedirs string
  | Remove string
  | Copy string string
  | Copytree string string
  | Mkdtemp string
  | TarWrite string string

record world =
  fs :: filesystem
  cwd :: string
  uid :: nat
  environ :: "string \<Rightarrow> string option"
  trace :: "event list"

record proc =
  returncode :: int
  out :: string
  err :: string
  fs_after :: filesystem

text \<open>
  The outside of the script. \<open>popen w cmd env\<close> is \<open>None\<close> when the executable is not
  found (\<^verbatim>\<open>subprocess.Popen\<close> raises \<^verbatim>\<open>FileNotFoundError\<close>), and otherwise the
  finished process. \<open>os_system w cmd\<close> is the status of a shell command and the file
  system after it. \<open>tmpname w suffix\<close> is the directory name \<^verbatim>\<open>tempfile.mkdtemp\<close> picks.
\<close>

record external =
  popen :: "world \<Rightarrow> string list \<Rightarrow> (string \<Rightarrow> string option) option \<Rightarrow> proc option"
  os_system :: "world \<Rightarrow> string \<Rightarrow> int \<times> filesystem"
  tmpname :: "world \<Rightarrow> string \<Rightarrow> string"

subsection \<open>Sequencing with exceptions\<close>

type_synonym 'a io = "world \<Rightarrow> (exn + 'a) \<times> world"

definition ret :: "'a \<Rightarrow> 'a io" where
  "ret x w = (Inr x, w)"

definition throw :: "exn \<Rightarrow> 'a io" where
  "throw e w = (Inl e, w)"

definition and_then :: "'a io \<Rightarrow> ('a \<Rightarrow> 'b io) \<Rightarrow> 'b io" where
  "and_then m f w = (case m w of (Inl e, w') \<Rightarrow> (Inl e, w') | (Inr x, w') \<Rightarrow> f x w')"

text \<open>A statement whose value is dropped.\<close>

definition discard :: "'a io \<Rightarrow> unit io" where
  "discard m = and_then m (\<lambda>_. ret ())"

text \<open>A block of statements, run in order until one raises.\<close>

fun steps :: "unit io list \<Rightarrow> unit io" where
  "steps [] = ret ()"
| "steps (m # ms) = and_then m (\<lambda>_. steps ms)"

text \<open>\<^verbatim>\<open>if c: body\<close> with no \<^verbatim>\<open>else\<close>.\<close>

definition only_if :: "bool \<Rightarrow> unit io \<Rightarrow> unit io" where
  "only_if c m = (if c then m else ret ())"

definition emit :: "event \<Rightarrow> unit io" where
  "emit ev w = (Inr (), w\<lparr>trace := trace w @ [ev]\<rparr>)"

subsection \<open>File-system calls\<close>

text \<open>
  Paths are looked up as the script spells them, a relative path against the current
  directory; \<^verbatim>\<open>.\<close>, \<^verbatim>\<open>..\<close>, doubled separators and symbolic links are not resolved,
  and a call that creates an entry does not check that the parent directory exists.
\<close>

definition abs_path :: "world \<Rightarrow> string \<Rightarrow> string" where
  "abs_path w p = (if prefix ''/'' p then p else os_path_join (cwd w) [p])"

definition os_path_exists :: "world \<Rightarrow> string \<Rightarrow> bool" where
  "os_path_exists w p = (p \<noteq> [] \<and> fs w (abs_path w p) \<noteq> None)"

definition os_path_isfile :: "world \<Rightarrow> string \<Rightarrow> bool" where
  "os_path_isfile w p = (p \<noteq> [] \<and> fs w (abs_path w p) = Some File)"

definition os_path_isdir :: "world \<Rightarrow> string \<Rightarrow> bool" where
  "os_path_isdir w p = (p \<noteq> [] \<and> fs w (abs_path w p) = Some Dir)"

text \<open>The entries at or below a path.\<close>

definition path_under :: "string \<Rightarrow> string \<Rightarrow> bool" where
  "path_under d p = (p = d \<or> prefix (d @ ''/'') p)"

definition os_chdir :: "string \<Rightarrow> unit io" where
  "os_chdir p w =
     (if p = [] then (Inl FileNotFoundError, w)
      else case fs w (abs_path w p) of
             None \<Rightarrow> (Inl FileNotFoundError, w)
           | Some File \<Rightarrow> (Inl NotADirectoryError, w)
           | Some Dir \<Rightarrow> (Inr (), w\<lparr>cwd := abs_path w p\<rparr>))"

definition shutil_rmtree :: "string \<Rightarrow> unit io" where
  "shutil_rmtree p w =
     (if p = [] then (Inl FileNotFoundError, w)
      else case fs w (abs_path w p) of
             None \<Rightarrow> (Inl FileNotFoundError, w)
           | Some File \<Rightarrow> (Inl NotADirectoryError, w)
           | Some Dir \<Rightarrow>
               (Inr (), w\<lparr>fs := (\<lambda>q. if path_under (abs_path w p) q then None else fs w q),
                          trace := trace w @ [Rmtree (abs_path w p)]\<rparr>))"

definition os_mkdir :: "string \<Rightarrow> unit io" where
  "os_mkdir p w =
     (if p = [] then (Inl FileNotFoundError, w)
      else case fs w (abs_path w p) of
             Some _ \<Rightarrow> (Inl FileExistsError, w)
           | None \<Rightarrow>
               (Inr (), w\<lparr>fs := (fs w)(abs_path w p \<mapsto> Dir),
                          trace := trace w @ [Mkdir (abs_path w p)]\<rparr>))"

text \<open>The proper ancestors of a path, outermost first.\<close>

fun parents_acc :: "string \<Rightarrow> string \<Rightarrow> string list" where
  "parents_acc acc [] = []"
| "parents_acc acc (c # cs) =
     (if c = CHR ''/'' \<and> acc \<noteq> [] then [acc] else []) @ parents_acc (acc @ [c]) cs"

definition parents :: "string \<Rightarrow> string list" where
  "parents p = parents_acc [] p"

text \<open>\<^verbatim>\<open>os.makedirs\<close>: the directory and its missing ancestors.\<close>

definition os_makedirs :: "string \<Rightarrow> unit io" where
  "os_makedirs p w =
     (if p = [] then (Inl FileNotFoundError, w)
      else if fs w (abs_path w p) \<noteq> None then (Inl FileExistsError, w)
      else if \<exists>q \<in> set (parents (abs_path w p)). fs w q = Some File
        then (Inl NotADirectoryError, w)
      else (Inr (), w\<lparr>fs := (\<lambda>q. if q = abs_path w p
                                     \<or> (q \<in> set (parents (abs_path w p)) \<and> fs w q = None)
                                  then Some Dir else fs w q),
                      trace := trace w @ [Makedirs (abs_path w p)]\<rparr>))"

definition os_remove :: "string \<Rightarrow> unit io" where
  "os_remove p w =
     (if p = [] then (Inl FileNotFoundError, w)
      else case fs w (abs_path w p) of
             None \<Rightarrow> (Inl FileNotFoundError, w)
           | Some Dir \<Rightarrow> (Inl IsADirectoryError, w)
           | Some File \<Rightarrow>
               (Inr (), w\<lparr>fs := (fs w)(abs_path w p := None),
                          trace := trace w @ [Remove (abs_path w p)]\<rparr>))"

text \<open>\<^verbatim>\<open>shutil.copy(src, dst)\<close>: into \<open>dst\<close> when that is a directory, else onto it.\<close>

definition shutil_copy :: "string \<Rightarrow> string \<Rightarrow> unit io" where
  "shutil_copy src dst w =
     (if src = [] then (Inl FileNotFoundError, w)
      else case fs w (abs_path w src) of
             None \<Rightarrow> (Inl FileNotFoundError, w)
           | Some Dir \<Rightarrow> (Inl IsADirectoryError, w)
           | Some File \<Rightarrow>
               (let target = (if os_path_isdir w dst then os_path_join (abs_path w dst) [basename src]
                              else abs_path w dst)
                in if fs w target = Some Dir then (Inl IsADirectoryError, w)
                   else (Inr (), w\<lparr>fs := (fs w)(target \<mapsto> File),
                                   trace := trace w @ [Copy (abs_path w src) target]\<rparr>)))"

text \<open>\<^verbatim>\<open>shutil.copytree(src, dst)\<close>: \<open>dst\<close> must not exist.\<close>

definition shutil_copytree :: "string \<Rightarrow> string \<Rightarrow> unit io" where
  "shutil_copytree src dst w =
     (if src = [] then (Inl FileNotFoundError, w)
      else case fs w (abs_path w src) of
             None \<Rightarrow> (Inl FileNotFoundError, w)
           | Some File \<Rightarrow> (Inl NotADirectoryError, w)
           | Some Dir \<Rightarrow>
               if fs w (abs_path w dst) \<noteq> None then (Inl FileExistsError, w)
               else (Inr (), w\<lparr>fs := (\<lambda>q. if path_under (abs_path w dst) q
                                            then fs w (abs_path w src @ drop (length (abs_path w dst)) q)
                                            else fs w q),
                               trace := trace w @ [Copytree (abs_path w src) (abs_path w dst)]\<rparr>))"

text \<open>\<^verbatim>\<open>tempfile.mkdtemp(suffix=...)\<close>: a new directory, whose name the outside picks.\<close>

definition mkdtemp :: "external \<Rightarrow> string \<Rightarrow> string io" where
  "mkdtemp X sfx w =
     (Inr (tmpname X w sfx),
      w\<lparr>fs := (fs w)(tmpname X w sfx \<mapsto> Dir), trace := trace w @ [Mkdtemp (tmpname X w sfx)]\<rparr>)"

text \<open>
  \<^verbatim>\<open>tarfile.open(path, "w:bz2")\<close>, \<^verbatim>\<open>tar.add(name)\<close>, \<^verbatim>\<open>tar.close()\<close>: the archive
  file is created (or truncated) on opening; the member must exist when it is added.
\<close>

definition tar_write :: "string \<Rightarrow> string \<Rightarrow> unit io" where
  "tar_write path name w =
     (if path = [] then (Inl FileNotFoundError, w)
      else if fs w (abs_path w path) = Some Dir then (Inl IsADirectoryError, w)
      else (let w' = w\<lparr>fs := (fs w)(abs_path w path \<mapsto> File),
                       trace := trace w @ [TarWrite (abs_path w path) name]\<rparr>
            in if os_path_exists w' name then (Inr (), w') else (Inl FileNotFoundError, w')))"

text \<open>A \<^verbatim>\<open>for\<close> loop over a tuple.\<close>

primrec for_each :: "'a list \<Rightarrow> ('a \<Rightarrow> unit io) \<Rightarrow> unit io" where
  "for_each [] body = ret ()"
| "for_each (x # xs) body = and_then (body x) (\<lambda>_. for_each xs body)"

subsection \<open>Logging, dying, running a program\<close>

text \<open>
  \<^verbatim>\<open>emit_log\<close> (lines 40-50): unless \<^verbatim>\<open>quiet\<close>, hand the message to the logging
  function of the given level. The message is whatever object the caller passes.
\<close>

definition emit_log :: "pyval \<Rightarrow> level \<Rightarrow> bool \<Rightarrow> unit io" where
  "emit_log msg lvl quiet = (if \<not> quiet then emit (Log lvl msg) else ret ())"

text \<open>\<^verbatim>\<open>error_and_die\<close> (lines 75-77): write the message to standard error, then \<^verbatim>\<open>sys.exit(1)\<close>.\<close>

definition error_and_die :: "string \<Rightarrow> 'a io" where
  "error_and_die msg =
     and_then (emit (Stderr (''ERROR: '' @ msg @ '' Exiting ...'' @ [CHR 0x0A])))
       (\<lambda>_. throw (SystemExit 1))"

text \<open>
  \<^verbatim>\<open>execute_shell\<close> (lines 80-90): log the command line at debug level, start the
  program and wait for it. The result is the exit status and the pair (stdout, stderr),
  which is \<^verbatim>\<open>(None, None)\<close> when \<^verbatim>\<open>verbose\<close> lets the child write to the terminal.
\<close>

definition execute_shell ::
  "external \<Rightarrow> string list \<Rightarrow> (string \<Rightarrow> string option) option \<Rightarrow> bool
     \<Rightarrow> (int \<times> pyval \<times> pyval) io" where
  "execute_shell X cli_args env verbose =
     and_then (emit_log (PyStr (''EXECUTING: '' @ str_join '' '' cli_args)) DEBUG False)
       (\<lambda>_ w. case popen X w cli_args env of
                 None \<Rightarrow> (Inl FileNotFoundError, w\<lparr>trace := trace w @ [Exec cli_args None]\<rparr>)
               | Some p \<Rightarrow>
                   (Inr (returncode p,
                         if verbose then (PyNone, PyNone) else (PyBytes (out p), PyBytes (err p))),
                    w\<lparr>fs := fs_after p,
                      trace := trace w @ [Exec cli_args (Some (returncode p))]\<rparr>))"

subsection \<open>The generic build step\<close>

definition OPENMW_OSG_BRANCH :: string where
  "OPENMW_OSG_BRANCH = ''3.4''"

definition UPSTREAM_OSG_VERSION :: string where
  "UPSTREAM_OSG_VERSION = ''OpenSceneGraph-3.6.5''"

definition INSTALL_PREFIX :: string where
  "INSTALL_PREFIX = os_path_join ''/'' [''opt'', ''build-openmw'']"

definition SRC_DIR :: string where
  "SRC_DIR = os_path_join INSTALL_PREFIX [''src'']"

text \<open>The parameters of \<^verbatim>\<open>build_library\<close> (lines 93-111); \<open>None\<close> is Python's \<^verbatim>\<open>None\<close>.\<close>

record lib_args =
  libname :: string
  check_file :: "string option"
  clone_dest :: "string option"
  cmake :: bool
  cmake_args :: "string list option"
  cmake_target :: string
  cpus :: string
  env :: "(string \<Rightarrow> string option) option"
  force :: bool
  install_prefix :: string
  git_url :: "string option"
  make_install :: bool
  patch :: "string option"
  quiet :: bool
  src_dir :: string
  verbose :: bool
  version :: string

text \<open>The defaults of the signature; \<^verbatim>\<open>cpus\<close> is the text \<^verbatim>\<open>format\<close> prints for it.\<close>

definition lib_defaults :: "string \<Rightarrow> lib_args" where
  "lib_defaults name =
     \<lparr>libname = name, check_file = None, clone_dest = None, cmake = True, cmake_args = None,
      cmake_target = ''..'', cpus = ''None'', env = None, force = False,
      install_prefix = INSTALL_PREFIX, git_url = None, make_install = True, patch = None,
      quiet = False, src_dir = SRC_DIR, verbose = False, version = ''master''\<rparr>"

text \<open>Line 151: \<^verbatim>\<open>if not clone_dest: clone_dest = libname\<close>.\<close>

definition dest_of :: "lib_args \<Rightarrow> string" where
  "dest_of a = (case clone_dest a of None \<Rightarrow> libname a | Some d \<Rightarrow> if d = [] then libname a else d)"

text \<open>A command line that must consist of strings: \<^verbatim>\<open>None\<close> among them is a \<^verbatim>\<open>TypeError\<close>.\<close>

definition need_str :: "string option \<Rightarrow> string io" where
  "need_str x = (case x of None \<Rightarrow> throw TypeError | Some s \<Rightarrow> ret s)"

text \<open>
  The nested function \<^verbatim>\<open>_git_clean_src\<close> (lines 112-149). The test for \<^verbatim>\<open>osg\<close> is a
  second \<^verbatim>\<open>if\<close>, not an \<^verbatim>\<open>elif\<close>, so its \<^verbatim>\<open>else\<close> also runs for \<^verbatim>\<open>osg-openmw\<close>.
\<close>

definition git_clean_src :: "external \<Rightarrow> lib_args \<Rightarrow> unit io" where
  "git_clean_src X a = steps
     [os_chdir (os_path_join (src_dir a) [dest_of a]),
      emit_log (PyStr (libname a @ '' executing source clean'')) INFO False,
      discard (execute_shell X [''git'', ''checkout'', ''--'', ''.''] None (verbose a)),
      discard (execute_shell X [''git'', ''clean'', ''-df''] None (verbose a)),
      only_if (libname a = ''osg-openmw'') (steps
        [emit_log (PyStr (libname a @ '' resetting source to the desired rev (''
                          @ OPENMW_OSG_BRANCH @ '')'')) INFO False,
         discard (execute_shell X [''git'', ''checkout'', OPENMW_OSG_BRANCH] None (verbose a)),
         discard (execute_shell X [''git'', ''reset'', ''--hard'', ''origin/'' @ OPENMW_OSG_BRANCH]
                    None (verbose a))]),
      if libname a = ''osg'' then steps
        [emit_log (PyStr (libname a @ '' resetting source to the desired rev (''
                          @ OPENMW_OSG_BRANCH @ '')'')) INFO False,
         discard (execute_shell X [''git'', ''checkout'', UPSTREAM_OSG_VERSION] None (verbose a)),
         discard (execute_shell X [''git'', ''reset'', ''--hard'', ''origin/'' @ UPSTREAM_OSG_VERSION]
                    None (verbose a))]
      else steps
        [emit_log (PyStr (libname a @ '' resetting source to the desired rev (''
                          @ version a @ '')'')) INFO False,
         discard (execute_shell X [''git'', ''checkout'', version a] None (verbose a)),
         discard (execute_shell X [''git'', ''reset'', ''--hard'', version a] None (verbose a))]]"

text \<open>
  Lines 157-168: clone when the source directory is missing, and die when the directory
  named after the library is still missing afterwards.
\<close>

definition clone_source :: "external \<Rightarrow> lib_args \<Rightarrow> unit io" where
  "clone_source X a w =
     (if \<not> os_path_exists w (os_path_join (src_dir a) [dest_of a]) then steps
        [emit_log (PyStr (dest_of a @ '' source directory not found, cloning...'')) INFO False,
         os_chdir (src_dir a),
         and_then (need_str (git_url a)) (\<lambda>url.
           if str_in ''osg-openmw'' (dest_of a)
           then discard (execute_shell X
                  [''git'', ''clone'', ''-b'', OPENMW_OSG_BRANCH, url, dest_of a] None (verbose a))
           else discard (execute_shell X [''git'', ''clone'', url, dest_of a] None (verbose a))),
         (\<lambda>w'. if \<not> os_path_exists w' (os_path_join (src_dir a) [libname a])
                then error_and_die (''Could not clone '' @ dest_of a @ '' for some reason!'') w'
                else ret () w')] w
      else ret () w)"

text \<open>Lines 170-172: with \<^verbatim>\<open>force\<close>, remove what a previous build installed.\<close>

definition remove_previous_install :: "lib_args \<Rightarrow> unit io" where
  "remove_previous_install a w =
     (if force a \<and> os_path_exists w (os_path_join (install_prefix a) [libname a]) then steps
        [emit_log (PyStr (libname a @ '' forcing removal of previous install'')) INFO False,
         shutil_rmtree (os_path_join (install_prefix a) [libname a])] w
      else ret () w)"

text \<open>Lines 176-180: apply the patch with \<^verbatim>\<open>os.system\<close>; a positive status is fatal.\<close>

definition apply_patch :: "external \<Rightarrow> lib_args \<Rightarrow> unit io" where
  "apply_patch X a =
     (case patch a of
        None \<Rightarrow> ret ()
      | Some p \<Rightarrow>
          if p = [] then ret ()
          else steps
            [emit_log (PyStr (''Applying patch: '' @ p)) INFO False,
             (\<lambda>w. let (code, fs') = os_system X w (''patch -p1 < '' @ p);
                      w' = w\<lparr>fs := fs', trace := trace w @ [System (''patch -p1 < '' @ p) code]\<rparr>
                  in if code > 0 then error_and_die ''There was a problem applying the patch!'' w'
                     else ret () w')])"

text \<open>Lines 184-203: configure in a fresh \<^verbatim>\<open>build\<close> directory; a nonzero status is fatal.\<close>

definition build_cmd :: "lib_args \<Rightarrow> string list" where
  "build_cmd a =
     [''cmake'', ''-DCMAKE_INSTALL_PREFIX='' @ install_prefix a @ ''/'' @ libname a]
     @ (case cmake_args a of None \<Rightarrow> [] | Some xs \<Rightarrow> xs)
     @ [cmake_target a]"

definition run_cmake :: "external \<Rightarrow> lib_args \<Rightarrow> unit io" where
  "run_cmake X a =
     only_if (cmake a) (steps
       [emit_log (PyStr (libname a @ '' building with cmake'')) INFO False,
        (\<lambda>w. only_if (os_path_isdir w (os_path_join (src_dir a) [dest_of a, ''build'']))
                (shutil_rmtree (os_path_join (src_dir a) [dest_of a, ''build''])) w),
        os_mkdir (os_path_join (src_dir a) [dest_of a, ''build'']),
        os_chdir (os_path_join (src_dir a) [dest_of a, ''build'']),
        emit_log (PyStr (libname a @ '' running cmake ...'')) INFO False,
        and_then (execute_shell X (build_cmd a) (env a) (verbose a)) (\<lambda>(exitcode, output).
          only_if (exitcode \<noteq> 0) (steps
            [emit_log (snd output) INFO False,
             error_and_die ''cmake exited nonzero!'']))])"

text \<open>Lines 205-211: compile; a nonzero status is fatal.\<close>

definition make_cmd :: "lib_args \<Rightarrow> string list" where
  "make_cmd a = [''make'', ''-j'' @ cpus a]"

definition run_make :: "external \<Rightarrow> lib_args \<Rightarrow> unit io" where
  "run_make X a = steps
     [emit_log (PyStr (libname a @ '' running make (this will take a while) ...'')) INFO False,
      and_then (execute_shell X (make_cmd a) (env a) (verbose a)) (\<lambda>(exitcode, output).
        only_if (exitcode \<noteq> 0) (steps
          [emit_log (snd output) INFO False,
           error_and_die ''make exited nonzero!'']))]"

text \<open>
  Lines 213-219: install. The exit status is dropped (\<^verbatim>\<open>[1]\<close> selects the output pair);
  what is tested is whether anything was captured from standard error.
\<close>

definition decode :: "pyval \<Rightarrow> string io" where
  "decode v = (case v of PyBytes s \<Rightarrow> ret s | _ \<Rightarrow> throw AttributeError)"

definition run_make_install :: "external \<Rightarrow> lib_args \<Rightarrow> unit io" where
  "run_make_install X a =
     only_if (make_install a) (steps
       [emit_log (PyStr (libname a @ '' running make install ...'')) INFO False,
        and_then (execute_shell X [''make'', ''install''] (env a) (verbose a)) (\<lambda>(exitcode, out, err).
          only_if (truthy err) (and_then (decode err) error_and_die)),
        emit_log (PyStr (libname a @ '' installed successfully'')) INFO False])"

text \<open>
  \<^verbatim>\<open>build_library\<close> (lines 93-219). The test of line 153 evaluates
  \<^verbatim>\<open>os.path.exists(check_file)\<close> first, which raises \<^verbatim>\<open>TypeError\<close> for \<^verbatim>\<open>None\<close>.
\<close>

definition build_library :: "external \<Rightarrow> lib_args \<Rightarrow> unit io" where
  "build_library X a w =
     (case check_file a of
        None \<Rightarrow> (Inl TypeError, w)
      | Some cf \<Rightarrow>
          if os_path_exists w cf \<and> os_path_isfile w cf \<and> \<not> force a
          then emit_log (PyStr (libname a @ '' found!'')) INFO False w
          else steps
            [emit_log (PyStr (libname a @ '' building now ...'')) INFO False,
             clone_source X a,
             remove_previous_install a,
             git_clean_src X a,
             apply_patch X a,
             os_chdir (os_path_join (src_dir a) [dest_of a]),
             run_cmake X a,
             run_make X a,
             run_make_install X a] w)"

subsection \<open>Distribution detection and package installation\<close>

text \<open>
  The module-level package lists (lines 30-34). They are Python lists, and \<^verbatim>\<open>main\<close>
  appends to three of them, so they are part of the program state. \<^verbatim>\<open>UBUNTU_PKGS\<close> is
  built from \<^verbatim>\<open>DEBIAN_PKGS\<close> by \<^verbatim>\<open>+\<close>, which copies: the two lists are separate objects.
\<close>

record pkg_tables =
  ARCH_PKGS :: "string list"
  DEBIAN_PKGS :: "string list"
  REDHAT_PKGS :: "string list"
  UBUNTU_PKGS :: "string list"
  VOID_PKGS :: "string list"

definition DEBIAN_PKGS_0 :: "string list" where
  "DEBIAN_PKGS_0 =
     [''git'', ''libopenal-dev'', ''libbullet-dev'', ''libsdl2-dev'', ''qt5-default'',
      ''libfreetype6-dev'', ''libboost-filesystem-dev'', ''libboost1.71-dev'',
      ''libboost-thread-dev'', ''libboost-program-options-dev'', ''libboost-system-dev'',
      ''libavcodec-dev'', ''libavformat-dev'', ''libavutil-dev'', ''libswscale-dev'', ''cmake'',
      ''build-essential'', ''libqt5opengl5-dev'']"

definition module_pkgs :: pkg_tables where
  "module_pkgs =
     \<lparr>ARCH_PKGS = [],
      DEBIAN_PKGS = DEBIAN_PKGS_0,
      REDHAT_PKGS =
        [''openal-devel'', ''SDL2-devel'', ''qt5-devel'', ''boost-filesystem'', ''git'',
         ''boost-thread'', ''boost-program-options'', ''boost-system'', ''ffmpeg-devel'',
         ''ffmpeg-libs'', ''gcc-c++'', ''tinyxml-devel'', ''cmake''],
      UBUNTU_PKGS = [''libfreetype6-dev'', ''libbz2-dev'', ''liblzma-dev''] @ DEBIAN_PKGS_0,
      VOID_PKGS =
        [''SDL2-devel'', ''boost-devel'', ''bullet-devel'', ''cmake'', ''ffmpeg-devel'',
         ''freetype-devel'', ''gcc'', ''git'', ''libXt-devel'', ''libavformat'', ''libavutil'',
         ''libmygui-devel'', ''libopenal-devel'', ''libopenjpeg2-devel'', ''libswresample'',
         ''libswscale'', ''libtxc_liblzma-devel'', ''libunshield-devel'', ''python-devel'',
         ''python3-devel'', ''qt5-devel'', ''zlib-devel'']\<rparr>"


text \<open>
  One branch of \<^verbatim>\<open>install_packages\<close>: announce the distribution, run the command,
  keep the output pair.
\<close>

definition run_pm ::
  "external \<Rightarrow> bool \<Rightarrow> string \<Rightarrow> string list \<Rightarrow> (pyval \<times> pyval) io" where
  "run_pm X verb detected cmd =
     and_then (emit_log (PyStr detected) INFO False) (\<lambda>_.
     and_then (execute_shell X cmd None verb) (\<lambda>(code, output). ret output))"

text \<open>
  \<^verbatim>\<open>install_packages\<close> (lines 518-582). \<^verbatim>\<open>distro.lower()\<close> on \<^verbatim>\<open>None\<close> is an
  \<^verbatim>\<open>AttributeError\<close>. In the Fedora branch the two cases of the user id are as the
  source has them: \<^verbatim>\<open>sudo\<close> is used when the user id is 0.
\<close>

definition install_packages ::
  "external \<Rightarrow> pkg_tables \<Rightarrow> string option \<Rightarrow> bool \<Rightarrow> (pyval \<times> pyval) io" where
  "install_packages X g distro verb =
     and_then (emit_log (PyStr
       ''Attempting to install dependency packages, please enter your sudo password as needed...'')
       INFO False) (\<lambda>_ w.
     case distro of
       None \<Rightarrow> (Inl AttributeError, w)
     | Some d \<Rightarrow>
         and_then
           (if str_in ''void'' (lower d) then
              run_pm X verb (''Distro detected as '' @ sq @ ''Void Linux'' @ sq)
                ((if uid w > 0 then [''sudo''] else []) @ [''xbps-install'', ''--yes''] @ VOID_PKGS g)
            else if str_in ''arch'' (lower d) then
              run_pm X verb (''Distro detected as '' @ sq @ ''Arch Linux'' @ sq)
                ((if uid w > 0 then [''sudo''] else []) @ [''pacman'', ''-sy''] @ ARCH_PKGS g)
            else if str_in ''debian'' (lower d) then
              run_pm X verb (''Distro detected as '' @ sq @ ''Debian'' @ sq)
                (if uid w > 0
                 then [''sudo'', ''apt-get'', ''install'', ''-y'', ''--force-yes''] @ DEBIAN_PKGS g
                 else [''apt-get'', ''install'', ''-y'', ''--force-yes''] @ DEBIAN_PKGS g)
            else if str_in ''devuan'' (lower d) then
              run_pm X verb (''Distro detected as '' @ sq @ ''Devuan'' @ sq)
                (if uid w > 0
                 then [''sudo'', ''apt-get'', ''install'', ''-y'', ''--force-yes''] @ DEBIAN_PKGS g
                 else [''apt-get'', ''install'', ''-y'', ''--force-yes''] @ DEBIAN_PKGS g)
            else if str_in ''ubuntu'' (lower d) \<or> str_in ''mint'' (lower d) then
              run_pm X verb (''Distro detected as '' @ sq @ ''Mint'' @ sq @ '' or '' @ sq @ ''Ubuntu'' @ sq @ ''!'')
                (if uid w > 0
                 then [''sudo'', ''apt-get'', ''install'', ''-y'', ''--force-yes''] @ UBUNTU_PKGS g
                 else [''apt-get'', ''install'', ''-y'', ''--force-yes''] @ UBUNTU_PKGS g)
            else if str_in ''fedora'' (lower d) then
              and_then (emit_log (PyStr (''Distro detected as '' @ sq @ ''Fedora'' @ sq)) INFO False) (\<lambda>_.
                if uid w > 0 then
                  and_then (execute_shell X [''dnf'', ''groupinstall'', ''-y'', ''development-tools'']
                              None verb) (\<lambda>_.
                  and_then (execute_shell X ([''dnf'', ''install'', ''-y''] @ REDHAT_PKGS g)
                              None verb) (\<lambda>(code, output). ret output))
                else
                  and_then (execute_shell X
                              [''sudo'', ''dnf'', ''groupinstall'', ''-y'', ''development-tools'']
                              None verb) (\<lambda>_.
                  and_then (execute_shell X ([''sudo'', ''dnf'', ''install'', ''-y''] @ REDHAT_PKGS g)
                              None verb) (\<lambda>(code, output). ret output)))
            else
              error_and_die
                (''Your OS is not yet supported!  If you think you know what you are doing, ''
                 @ ''you can use '' @ sq @ ''-S'' @ sq @ '' to continue anyways.''))
           (\<lambda>output.
              and_then (emit_log (PyStr ''Package installation completed'') INFO False)
                (\<lambda>_. ret output)) w)"

subsection \<open>The orchestrator: flags\<close>

text \<open>
  The namespace \<^verbatim>\<open>parse_argv\<close> returns (lines 585-742); a field \<open>p_x\<close> is
  \<^verbatim>\<open>parsed.x\<close>. Options that take a value are \<open>None\<close> when absent.
\<close>

record parsed =
  p_sha :: "string option"
  p_tag :: "string option"
  p_branch :: "string option"
  p_build_bullet :: bool
  p_build_mygui :: bool
  p_build_upstream_osg :: bool
  p_build_unshield :: bool
  p_force_bullet :: bool
  p_force_mygui :: bool
  p_force_openmw :: bool
  p_force_osg :: bool
  p_force_tes3mp :: bool
  p_force_unshield :: bool
  p_force_pkg :: bool
  p_force_all :: bool
  p_force_all_tes3mp :: bool
  p_system_osg :: bool
  p_install_prefix :: "string option"
  p_jobs :: "string option"
  p_make_install :: bool
  p_make_pkg :: bool
  p_no_pull :: bool
  p_out :: "string option"
  p_patch :: "string option"
  p_skip_install_pkgs :: bool
  p_src_dir :: "string option"
  p_update :: bool
  p_tes3mp :: bool
  p_tes3mp_server_only :: bool
  p_with_corescripts :: bool
  p_with_essimporter :: bool
  p_without_cs :: bool
  p_without_iniimporter :: bool
  p_without_launcher :: bool
  p_without_wizard :: bool
  p_verbose :: bool

text \<open>
  The local variables of \<^verbatim>\<open>main\<close> (lines 749-783); a field \<open>m_x\<close> is the variable
  \<^verbatim>\<open>x\<close>. \<open>m_out_dir\<close> starts as \<^verbatim>\<open>os.getenv("HOME")\<close>, \<open>m_cpus\<close> as the text of
  \<^verbatim>\<open>CPUS\<close>; \<open>m_rev\<close> is unbound until line 897 and is assigned on every path there.
  \<open>m_pkgs\<close> holds the module-level package lists, which \<^verbatim>\<open>main\<close> mutates.
\<close>

record locals =
  m_cpus :: string
  m_distro :: "string option"
  m_build_bullet :: bool
  m_build_mygui :: bool
  m_build_upstream_osg :: bool
  m_build_unshield :: bool
  m_force_bullet :: bool
  m_force_mygui :: bool
  m_force_openmw :: bool
  m_force_osg :: bool
  m_force_tes3mp :: bool
  m_force_unshield :: bool
  m_force_pkg :: bool
  m_install_prefix :: string
  m_system_osg :: bool
  m_make_install :: bool
  m_make_pkg :: bool
  m_out_dir :: "string option"
  m_patch :: "string option"
  m_pull :: bool
  m_skip_install_pkgs :: bool
  m_src_dir :: string
  m_tes3mp :: bool
  m_tes3mp_serveronly :: bool
  m_verbose :: bool
  m_with_corescripts :: bool
  m_sha :: "string option"
  m_tag :: "string option"
  m_branch :: string
  m_rev :: string
  m_with_essimporter :: bool
  m_without_cs :: bool
  m_without_iniimporter :: bool
  m_without_launcher :: bool
  m_without_wizard :: bool
  m_pkgs :: pkg_tables

definition main_locals :: "string \<Rightarrow> string option \<Rightarrow> locals" where
  "main_locals CPUS OUT_DIR =
     \<lparr>m_cpus = CPUS, m_distro = None, m_build_bullet = False, m_build_mygui = False,
      m_build_upstream_osg = False, m_build_unshield = False, m_force_bullet = False,
      m_force_mygui = False, m_force_openmw = False, m_force_osg = False,
      m_force_tes3mp = False, m_force_unshield = False, m_force_pkg = False,
      m_install_prefix = INSTALL_PREFIX, m_system_osg = False, m_make_install = False,
      m_make_pkg = False, m_out_dir = OUT_DIR, m_patch = None, m_pull = True,
      m_skip_install_pkgs = False, m_src_dir = SRC_DIR, m_tes3mp = False,
      m_tes3mp_serveronly = False, m_verbose = False, m_with_corescripts = False,
      m_sha = None, m_tag = None, m_branch = ''master'', m_rev = [],
      m_with_essimporter = False, m_without_cs = False, m_without_iniimporter = False,
      m_without_launcher = False, m_without_wizard = False, m_pkgs = module_pkgs\<rparr>"

text \<open>\<^verbatim>\<open>if parsed.x:\<close> for an option with a value: present and not the empty string.\<close>

definition given :: "string option \<Rightarrow> bool" where
  "given x = (case x of None \<Rightarrow> False | Some s \<Rightarrow> s \<noteq> [])"

definition val :: "string option \<Rightarrow> string" where
  "val x = (case x of None \<Rightarrow> [] | Some s \<Rightarrow> s)"

text \<open>
  One \<^verbatim>\<open>if parsed.x:\<close> block of \<^verbatim>\<open>main\<close>: the assignments, then the log line (which
  may print the variable just assigned). \<open>thread\<close> runs such blocks in order.
\<close>

definition flag :: "bool \<Rightarrow> (locals \<Rightarrow> locals) \<Rightarrow> (locals \<Rightarrow> string) \<Rightarrow> locals \<Rightarrow> locals io" where
  "flag c upd msg v =
     (if c then and_then (emit_log (PyStr (msg (upd v))) INFO False) (\<lambda>_. ret (upd v))
      else ret v)"

definition flag_silent :: "bool \<Rightarrow> (locals \<Rightarrow> locals) \<Rightarrow> locals \<Rightarrow> locals io" where
  "flag_silent c upd v = ret (if c then upd v else v)"

fun thread :: "('s \<Rightarrow> 's io) list \<Rightarrow> 's \<Rightarrow> 's io" where
  "thread [] v = ret v"
| "thread (h # hs) v = and_then (h v) (thread hs)"

text \<open>Lines 867-880: a TES3MP build needs LuaJIT, appended to three of the package lists.\<close>

definition add_luajit :: "pkg_tables \<Rightarrow> pkg_tables" where
  "add_luajit g =
     g\<lparr>DEBIAN_PKGS := DEBIAN_PKGS g @ [''libluajit-5.1-dev''],
       UBUNTU_PKGS := UBUNTU_PKGS g @ [''libluajit-5.1-dev''],
       VOID_PKGS := VOID_PKGS g @ [''LuaJIT-devel'']\<rparr>"

text \<open>
  Lines 785-909 of \<^verbatim>\<open>main\<close>, block by block. The block for \<^verbatim>\<open>--system-osg\<close> (lines 861-863) assigns
  \<^verbatim>\<open>False\<close>. \<^verbatim>\<open>os.path.abspath\<close> is the path against the current directory, without
  the normalisation of \<^verbatim>\<open>normpath\<close>. Setting the logger's level is not modelled.
\<close>

definition main_blocks :: "parsed \<Rightarrow> (locals \<Rightarrow> locals io) list" where
  "main_blocks p =
     [flag (p_force_all p)
        (\<lambda>v. v\<lparr>m_force_bullet := True, m_force_mygui := True, m_force_openmw := True,
                m_force_osg := True, m_force_unshield := True, m_force_pkg := True\<rparr>)
        (\<lambda>_. ''Force building all dependencies''),
      flag (p_force_all_tes3mp p)
        (\<lambda>v. v\<lparr>m_force_bullet := True, m_force_mygui := True, m_force_osg := True,
                m_force_tes3mp := True, m_force_unshield := True, m_force_pkg := True\<rparr>)
        (\<lambda>_. ''Force building all TES3MP dependencies''),
      flag (p_build_bullet p) (\<lambda>v. v\<lparr>m_build_bullet := True\<rparr>) (\<lambda>_. ''Building LibBullet''),
      flag (p_build_mygui p) (\<lambda>v. v\<lparr>m_build_mygui := True\<rparr>) (\<lambda>_. ''Building MyGUI''),
      flag (p_build_upstream_osg p) (\<lambda>v. v\<lparr>m_build_upstream_osg := True\<rparr>)
        (\<lambda>_. ''Building upstream OSG''),
      flag (p_build_unshield p) (\<lambda>v. v\<lparr>m_build_unshield := True\<rparr>) (\<lambda>_. ''Building Unshield''),
      flag (p_force_bullet p) (\<lambda>v. v\<lparr>m_force_bullet := True\<rparr>)
        (\<lambda>_. ''Forcing build of LibBullet''),
      flag (p_force_mygui p) (\<lambda>v. v\<lparr>m_force_mygui := True\<rparr>) (\<lambda>_. ''Forcing build of MyGUI''),
      flag (p_force_openmw p) (\<lambda>v. v\<lparr>m_force_openmw := True\<rparr>)
        (\<lambda>_. ''Forcing build of OpenMW''),
      flag (p_force_osg p) (\<lambda>v. v\<lparr>m_force_osg := True\<rparr>) (\<lambda>_. ''Forcing build of OSG''),
      flag (p_force_tes3mp p) (\<lambda>v. v\<lparr>m_force_tes3mp := True\<rparr>)
        (\<lambda>_. ''Forcing build of TES3MP''),
      flag (p_force_unshield p) (\<lambda>v. v\<lparr>m_force_unshield := True\<rparr>)
        (\<lambda>_. ''Forcing build of Unshield''),
      flag (p_force_pkg p) (\<lambda>v. v\<lparr>m_force_pkg := True\<rparr>) (\<lambda>_. ''Forcing build of package''),
      flag (given (p_install_prefix p)) (\<lambda>v. v\<lparr>m_install_prefix := val (p_install_prefix p)\<rparr>)
        (\<lambda>v. ''Using the install prefix: '' @ m_install_prefix v),
      flag (given (p_jobs p)) (\<lambda>v. v\<lparr>m_cpus := val (p_jobs p)\<rparr>)
        (\<lambda>v. sq @ ''-j'' @ m_cpus v @ sq @ '' will be used with make''),
      flag (p_make_install p) (\<lambda>v. v\<lparr>m_make_install := True\<rparr>)
        (\<lambda>_. ''Make install will be ran''),
      flag (p_make_pkg p) (\<lambda>v. v\<lparr>m_make_pkg := True\<rparr>) (\<lambda>_. ''A package will be made''),
      flag (p_no_pull p) (\<lambda>v. v\<lparr>m_pull := False\<rparr>) (\<lambda>_. ''git fetch will not be ran''),
      flag (given (p_out p)) (\<lambda>v. v\<lparr>m_out_dir := p_out p\<rparr>)
        (\<lambda>v. ''Out dir set to: '' @ val (m_out_dir v)),
      (\<lambda>v w. if given (p_patch p) then
                if os_path_isfile w (abs_path w (val (p_patch p)))
                then and_then (emit_log (PyStr (''Will attempt to use this patch: ''
                                 @ abs_path w (val (p_patch p)))) INFO False)
                       (\<lambda>_. ret (v\<lparr>m_patch := Some (abs_path w (val (p_patch p)))\<rparr>)) w
                else error_and_die (''The supplied patch isn'' @ sq @ ''t a file!'') w
              else ret v w),
      flag (p_skip_install_pkgs p) (\<lambda>v. v\<lparr>m_skip_install_pkgs := True\<rparr>)
        (\<lambda>_. ''Package installs will be skipped''),
      flag (p_system_osg p) (\<lambda>v. v\<lparr>m_system_osg := False\<rparr>)
        (\<lambda>_. ''The system OSG will be used.''),
      flag (given (p_src_dir p)) (\<lambda>v. v\<lparr>m_src_dir := val (p_src_dir p)\<rparr>)
        (\<lambda>v. ''Source directory set to: '' @ m_src_dir v),
      flag (p_tes3mp p) (\<lambda>v. v\<lparr>m_pkgs := add_luajit (m_pkgs v), m_tes3mp := True\<rparr>)
        (\<lambda>_. ''TES3MP build selected!''),
      flag (p_tes3mp_server_only p)
        (\<lambda>v. v\<lparr>m_pkgs := add_luajit (m_pkgs v), m_tes3mp_serveronly := True\<rparr>)
        (\<lambda>_. ''TES3MP server-only build selected''),
      flag (p_verbose p) (\<lambda>v. v\<lparr>m_verbose := True\<rparr>) (\<lambda>_. ''Verbose output enabled''),
      flag_silent (p_with_corescripts p) (\<lambda>v. v\<lparr>m_with_corescripts := True\<rparr>),
      flag_silent (p_with_essimporter p) (\<lambda>v. v\<lparr>m_with_essimporter := True\<rparr>),
      flag_silent (p_without_cs p) (\<lambda>v. v\<lparr>m_without_cs := True\<rparr>),
      flag_silent (p_without_iniimporter p) (\<lambda>v. v\<lparr>m_without_iniimporter := True\<rparr>),
      flag_silent (p_without_launcher p) (\<lambda>v. v\<lparr>m_without_launcher := True\<rparr>),
      flag_silent (p_without_wizard p) (\<lambda>v. v\<lparr>m_without_wizard := True\<rparr>),
      (\<lambda>v. if given (p_branch p) then
              flag True
                (\<lambda>v. if \<not> str_in ''/'' (val (p_branch p))
                      then v\<lparr>m_branch := ''origin/'' @ val (p_branch p),
                             m_rev := ''origin/'' @ val (p_branch p)\<rparr>
                      else v\<lparr>m_branch := val (p_branch p), m_rev := val (p_branch p)\<rparr>)
                (\<lambda>v. ''Branch selected: '' @ m_branch v) v
            else if given (p_sha p) then
              flag True (\<lambda>v. v\<lparr>m_sha := p_sha p, m_rev := val (p_sha p)\<rparr>)
                (\<lambda>v. ''SHA selected: '' @ val (m_sha v)) v
            else if given (p_tag p) then
              flag True (\<lambda>v. v\<lparr>m_tag := p_tag p, m_rev := val (p_tag p)\<rparr>)
                (\<lambda>v. ''Tag selected: '' @ val (m_tag v)) v
            else ret (v\<lparr>m_rev := ''origin/'' @ m_branch v\<rparr>))]"

definition main_flags :: "parsed \<Rightarrow> locals \<Rightarrow> locals io" where
  "main_flags p = thread (main_blocks p)"






text \<open>Lines 925-929: install the packages unless told to skip that.\<close>

definition main_install :: "external \<Rightarrow> locals \<Rightarrow> unit io" where
  "main_install X v =
     only_if (\<not> m_skip_install_pkgs v)
       (and_then (install_packages X (m_pkgs v) (m_distro v) (m_verbose v)) (\<lambda>(out, err).
          only_if (truthy err)
            (and_then (decode err) (\<lambda>s. emit_log (PyStr (''Stderr received: '' @ s)) INFO False))))"


subsection \<open>The orchestrator: dependencies\<close>

definition BULLET_VERSION :: string where
  "BULLET_VERSION = ''2.86.1''"

definition MYGUI_VERSION :: string where
  "MYGUI_VERSION = ''3.2.2''"

definition UNSHIELD_VERSION :: string where
  "UNSHIELD_VERSION = ''1.4.2''"

definition osg_cmake_args :: "string list" where
  "osg_cmake_args =
     [''-DBUILD_OSG_PLUGINS_BY_DEFAULT=0'', ''-DBUILD_OSG_PLUGIN_OSG=1'',
      ''-DBUILD_OSG_PLUGIN_DDS=1'', ''-DBUILD_OSG_PLUGIN_TGA=1'', ''-DBUILD_OSG_PLUGIN_BMP=1'',
      ''-DBUILD_OSG_PLUGIN_JPEG=1'', ''-DBUILD_OSG_PLUGIN_PNG=1'',
      ''-DBUILD_OSG_DEPRECATED_SERIALIZERS=0'']"

text \<open>The keyword arguments of the two OSG calls (lines 941-960 and 965-984).\<close>

definition upstream_osg_args :: "locals \<Rightarrow> lib_args" where
  "upstream_osg_args v =
     (lib_defaults ''osg'')
       \<lparr>check_file := Some (os_path_join (m_install_prefix v) [''osg'', ''lib64'', ''libosg.so'']),
        cmake_args := Some osg_cmake_args, cpus := m_cpus v, force := m_force_osg v,
        git_url := Some ''https://github.com/openscenegraph/OpenSceneGraph.git'',
        install_prefix := m_install_prefix v, src_dir := m_src_dir v, verbose := m_verbose v\<rparr>"

definition osg_openmw_args :: "locals \<Rightarrow> lib_args" where
  "osg_openmw_args v =
     (lib_defaults ''osg-openmw'')
       \<lparr>check_file :=
          Some (os_path_join (m_install_prefix v) [''osg-openmw'', ''lib64'', ''libosg.so'']),
        cmake_args := Some osg_cmake_args, cpus := m_cpus v, force := m_force_osg v,
        git_url := Some ''https://github.com/OpenMW/osg.git'',
        install_prefix := m_install_prefix v, src_dir := m_src_dir v, verbose := m_verbose v\<rparr>"

text \<open>
  Lines 940-984: build upstream OSG when asked to; otherwise build the OpenMW fork unless
  \<^verbatim>\<open>system_osg\<close> is set.
\<close>

definition main_osg :: "external \<Rightarrow> locals \<Rightarrow> unit io" where
  "main_osg X v =
     (if m_build_upstream_osg v then build_library X (upstream_osg_args v)
      else if \<not> m_system_osg v then build_library X (osg_openmw_args v)
      else ret ())"

text \<open>Lines 987-1008, 1011-1022 and 1025-1048: Bullet, Unshield and MyGUI.\<close>

definition bullet_args :: "locals \<Rightarrow> lib_args" where
  "bullet_args v =
     (lib_defaults ''bullet'')
       \<lparr>check_file :=
          Some (os_path_join (m_install_prefix v) [''bullet'', ''lib'', ''libLinearMath.so'']),
        cmake_args := Some
          [''-DBUILD_CPU_DEMOS=false'', ''-DBUILD_OPENGL3_DEMOS=false'',
           ''-DBUILD_BULLET2_DEMOS=false'', ''-DBUILD_UNIT_TESTS=false'', ''-DINSTALL_LIBS=on'',
           ''-DBUILD_SHARED_LIBS=on''],
        cpus := m_cpus v, force := m_force_bullet v,
        git_url := Some ''https://github.com/bulletphysics/bullet3.git'',
        install_prefix := m_install_prefix v, src_dir := m_src_dir v, verbose := m_verbose v,
        version := BULLET_VERSION\<rparr>"

definition unshield_args :: "locals \<Rightarrow> lib_args" where
  "unshield_args v =
     (lib_defaults ''unshield'')
       \<lparr>check_file := Some (os_path_join (m_install_prefix v) [''unshield'', ''bin'', ''unshield'']),
        cpus := m_cpus v, force := m_force_unshield v,
        git_url := Some ''https://github.com/twogood/unshield.git'',
        install_prefix := m_install_prefix v, src_dir := m_src_dir v, verbose := m_verbose v,
        version := UNSHIELD_VERSION\<rparr>"

definition mygui_args :: "locals \<Rightarrow> lib_args" where
  "mygui_args v =
     (lib_defaults ''mygui'')
       \<lparr>check_file :=
          Some (os_path_join (m_install_prefix v) [''mygui'', ''lib'', ''libMyGUIEngine.so'']),
        cmake_args := Some
          [''-DMYGUI_BUILD_TOOLS=OFF'', ''-DMYGUI_RENDERSYSTEM=1'', ''-DMYGUI_BUILD_DEMOS=OFF'',
           ''-DMYGUI_BUILD_PLUGINS=OFF''],
        cpus := m_cpus v, force := m_force_mygui v,
        git_url := Some ''https://github.com/MyGUI/mygui.git'',
        install_prefix := m_install_prefix v, src_dir := m_src_dir v, verbose := m_verbose v,
        version := MYGUI_VERSION\<rparr>"

definition main_bullet :: "external \<Rightarrow> locals \<Rightarrow> unit io" where
  "main_bullet X v =
     only_if (m_build_bullet v \<or> m_force_bullet v) (build_library X (bullet_args v))"

definition main_unshield :: "external \<Rightarrow> locals \<Rightarrow> unit io" where
  "main_unshield X v =
     only_if (m_build_unshield v \<or> m_force_unshield v) (build_library X (unshield_args v))"

text \<open>\<^verbatim>\<open>if os.getenv(name):\<close> set and not empty.\<close>

definition getenv_set :: "world \<Rightarrow> string \<Rightarrow> bool" where
  "getenv_set w name = given (environ w name)"

definition main_mygui :: "external \<Rightarrow> locals \<Rightarrow> unit io" where
  "main_mygui X v w =
     (if m_make_pkg v \<and> getenv_set w ''TES3MP_FORGE''
      then emit_log (PyStr ''Skipping MyGUI build'') INFO False w
      else only_if (m_build_mygui v \<or> m_force_mygui v) (build_library X (mygui_args v)) w)"

subsection \<open>Revision resolution and the main project\<close>





text \<open>
  Lines 1209-1221 (and, identically, 1062-1074): \<^verbatim>\<open>CMAKE_PREFIX_PATH\<close>, with the
  install prefix already substituted for \<^verbatim>\<open>{0}\<close>.
\<close>

definition main_prefix_path :: "locals \<Rightarrow> string" where
  "main_prefix_path v =
     (if m_system_osg v then [] else m_install_prefix v @ ''/osg-openmw'')
     @ (if m_build_bullet v \<or> m_force_bullet v then '':'' @ m_install_prefix v @ ''/bullet'' else [])
     @ (if m_build_mygui v \<or> m_force_mygui v then '':'' @ m_install_prefix v @ ''/mygui'' else [])
     @ (if m_build_unshield v \<or> m_force_unshield v
        then '':'' @ m_install_prefix v @ ''/unshield'' else [])"

text \<open>The OSG arguments, spelled out twice in the source (lines 224-245 and 1254-1273).\<close>

definition osg_link_args :: "string \<Rightarrow> string list" where
  "osg_link_args osg =
     [''-DOPENTHREADS_INCLUDE_DIR='' @ osg @ ''/include'',
      ''-DOPENTHREADS_LIBRARY='' @ osg @ ''/lib64/libOpenThreads.so'',
      ''-DOSG_INCLUDE_DIR='' @ osg @ ''/include'',
      ''-DOSG_LIBRARY='' @ osg @ ''/lib64/libosg.so'',
      ''-DOSGANIMATION_INCLUDE_DIR='' @ osg @ ''/include'',
      ''-DOSGANIMATION_LIBRARY='' @ osg @ ''/lib64/libosgAnimation.so'',
      ''-DOSGDB_INCLUDE_DIR='' @ osg @ ''/include'',
      ''-DOSGDB_LIBRARY='' @ osg @ ''/lib64/libosgDB.so'',
      ''-DOSGFX_INCLUDE_DIR='' @ osg @ ''/include'',
      ''-DOSGFX_LIBRARY='' @ osg @ ''/lib64/libosgFX.so'',
      ''-DOSGGA_INCLUDE_DIR='' @ osg @ ''/include'',
      ''-DOSGGA_LIBRARY='' @ osg @ ''/lib64/libosgGA.so'',
      ''-DOSGPARTICLE_INCLUDE_DIR='' @ osg @ ''/include'',
      ''-DOSGPARTICLE_LIBRARY='' @ osg @ ''/lib64/libosgParticle.so'',
      ''-DOSGTEXT_INCLUDE_DIR='' @ osg @ ''/include'',
      ''-DOSGTEXT_LIBRARY='' @ osg @ ''/lib64/libosgText.so'',
      ''-DOSGUTIL_INCLUDE_DIR='' @ osg @ ''/include'',
      ''-DOSGUTIL_LIBRARY='' @ osg @ ''/lib64/libosgUtil.so'',
      ''-DOSGVIEWER_INCLUDE_DIR='' @ osg @ ''/include'',
      ''-DOSGVIEWER_LIBRARY='' @ osg @ ''/lib64/libosgViewer.so'']"

definition bullet_link_args :: "string \<Rightarrow> string list" where
  "bullet_link_args bullet =
     [''-DBullet_INCLUDE_DIR='' @ bullet @ ''/include/bullet'',
      ''-DBullet_BulletCollision_LIBRARY='' @ bullet @ ''/lib/libBulletCollision.so'',
      ''-DBullet_LinearMath_LIBRARY='' @ bullet @ ''/lib/libLinearMath.so'']"

text \<open>\<^verbatim>\<open>format_openmw_cmake_args\<close> (lines 222-258); \<^verbatim>\<open>osg_path\<close> may be \<^verbatim>\<open>None\<close>.\<close>

definition format_openmw_cmake_args :: "string \<Rightarrow> string option \<Rightarrow> bool \<Rightarrow> string list" where
  "format_openmw_cmake_args bullet_path osg_path use_bullet =
     (if given osg_path then osg_link_args (val osg_path) else [])
     @ (if use_bullet then bullet_link_args bullet_path else [])"

text \<open>Lines 1242-1307: the cmake arguments of the OpenMW build.\<close>

definition main_openmw_cmake_args :: "locals \<Rightarrow> string list" where
  "main_openmw_cmake_args v =
     (if m_system_osg v
      then [''-DBOOST_ROOT=/usr/include/boost'', ''-DCMAKE_BUILD_TYPE=MinSizeRel'',
            ''-DDESIRED_QT_VERSION=5'']
      else [''-DBOOST_ROOT=/usr/include/boost'', ''-DCMAKE_BUILD_TYPE=MinSizeRel'',
            ''-DDESIRED_QT_VERSION=5'']
           @ osg_link_args (os_path_join INSTALL_PREFIX [''osg-openmw'']))
     @ (if m_build_bullet v \<or> m_force_bullet v
        then bullet_link_args (os_path_join INSTALL_PREFIX [''bullet'']) else [])
     @ (if \<not> m_with_essimporter v then [''-DBUILD_ESSIMPORTER=no''] else [])
     @ (if m_without_cs v then [''-DBUILD_OPENCS=no''] else [])
     @ (if m_without_iniimporter v then [''-DBUILD_MWINIIMPORTER=no''] else [])
     @ (if m_without_launcher v then [''-DBUILD_LAUNCHER=no''] else [])
     @ (if m_without_wizard v then [''-DBUILD_WIZARD=no''] else [])"

text \<open>
  Lines 1077-1123: the cmake arguments of the TES3MP build. A client build links against
  the OSG under \<^verbatim>\<open>/usr/local\<close> inside the forge container, and otherwise against the
  fork unless \<^verbatim>\<open>system_osg\<close> is set.
\<close>

definition main_tes3mp_cmake_args :: "world \<Rightarrow> locals \<Rightarrow> string list" where
  "main_tes3mp_cmake_args w v =
     [''-Wno-dev'', ''-DCMAKE_BUILD_TYPE=Release'', ''-DBUILD_OPENCS=OFF'',
      ''-DCMAKE_CXX_STANDARD=14'', ''-DCMAKE_CXX_FLAGS='' @ [CHR 0x22] @ ''-std=c++14'' @ [CHR 0x22],
      ''-DDESIRED_QT_VERSION=5'']
     @ (if m_tes3mp_serveronly v
        then [''-DBUILD_OPENMW_MP=ON'', ''-DBUILD_BROWSER=OFF'', ''-DBUILD_BSATOOL=OFF'',
              ''-DBUILD_ESMTOOL=OFF'', ''-DBUILD_ESSIMPORTER=OFF'', ''-DBUILD_LAUNCHER=OFF'',
              ''-DBUILD_MWINIIMPORTER=OFF'', ''-DBUILD_MYGUI_PLUGIN=OFF'', ''-DBUILD_OPENMW=OFF'',
              ''-DBUILD_WIZARD=OFF'']
        else format_openmw_cmake_args (os_path_join INSTALL_PREFIX [''bullet''])
               (if getenv_set w ''TES3MP_FORGE'' then Some ''/usr/local''
                else if m_system_osg v then None
                else Some (os_path_join INSTALL_PREFIX [''osg-openmw'']))
               (m_build_bullet v \<or> m_force_bullet v))"

subsection \<open>The packager\<close>

definition tes3mp_build :: "string \<Rightarrow> string" where
  "tes3mp_build name = os_path_join SRC_DIR [''tes3mp'', ''build'', name]"

definition tes3mp_top :: "string \<Rightarrow> string" where
  "tes3mp_top name = os_path_join SRC_DIR [''tes3mp'', name]"

text \<open>Lines 308-332.\<close>

definition pkg_bins :: "bool \<Rightarrow> string list" where
  "pkg_bins serveronly =
     (if serveronly then
        [tes3mp_build ''tes3mp-server'', tes3mp_build ''tes3mp-server-default.cfg'',
         tes3mp_top ''AUTHORS.md'', tes3mp_top ''LICENSE'', tes3mp_top ''README.md'',
         tes3mp_top ''tes3mp-credits.md'']
      else
        [tes3mp_build ''bsatool'', tes3mp_build ''esmtool'', tes3mp_build ''openmw-essimporter'',
         tes3mp_build ''openmw-iniimporter'', tes3mp_build ''openmw-launcher'',
         tes3mp_build ''openmw-wizard'', tes3mp_build ''settings-default.cfg'',
         tes3mp_build ''tes3mp'', tes3mp_build ''tes3mp-browser'',
         tes3mp_build ''tes3mp-client-default.cfg'', tes3mp_build ''tes3mp-server'',
         tes3mp_build ''tes3mp-server-default.cfg'', tes3mp_top ''tes3mp-credits.md''])"

text \<open>Lines 336-363, 380-395 and 399-415.\<close>

definition forge_system_libs :: "string list" where
  "forge_system_libs =
     [''/usr/local/lib64/libstdc++.so.6'', ''/usr/local/lib/libMyGUIEngine.so.3.2.3'',
      ''/usr/local/lib/libavcodec.so.58'', ''/usr/local/lib/libavformat.so.58'',
      ''/usr/local/lib/libavutil.so.56'', ''/usr/local/lib/libboost_filesystem.so.1.64.0'',
      ''/usr/local/lib/libboost_program_options.so.1.64.0'',
      ''/usr/local/lib/libboost_system.so.1.64.0'', ''/usr/local/lib/libswresample.so.3'',
      ''/usr/local/lib/libswscale.so.5'', ''/usr/local/lib64/libOpenThreads.so.20'',
      ''/usr/local/lib64/libosg.so.130'', ''/usr/local/lib64/libosgAnimation.so.130'',
      ''/usr/local/lib64/libosgDB.so.130'', ''/usr/local/lib64/libosgFX.so.130'',
      ''/usr/local/lib64/libosgGA.so.130'', ''/usr/local/lib64/libosgParticle.so.130'',
      ''/usr/local/lib64/libosgText.so.130'', ''/usr/local/lib64/libosgUtil.so.130'',
      ''/usr/local/lib64/libosgViewer.so.130'', ''/usr/local/lib64/libosgWidget.so.130'',
      ''/usr/lib/x86_64-linux-gnu/libSDL2.a'', ''/usr/lib/x86_64-linux-gnu/libSDL2-2.0.so.0'',
      ''/usr/lib/x86_64-linux-gnu/libopenal.so'', ''/usr/lib/x86_64-linux-gnu/libluajit-5.1.so.2'',
      ''/usr/lib/x86_64-linux-gnu/libpng12.so.0'']"

definition void_system_libs :: "string list" where
  "void_system_libs =
     [''/usr/lib/libavcodec.so.58'', ''/usr/lib/libavformat.so.58'', ''/usr/lib/libavutil.so.56'',
      ''/usr/lib/libboost_filesystem.so'', ''/usr/lib/libboost_program_options.so'',
      ''/usr/lib/libboost_system.so'', ''/usr/lib/libboost_thread.so'',
      ''/usr/lib/libswresample.so'', ''/usr/lib/libswscale.so'', ''/usr/lib/libSDL2.so'',
      ''/usr/lib/libbz2.so'', ''/usr/lib/libopenal.so'', ''/usr/lib/libluajit-5.1.so'',
      ''/usr/lib/libpng16.so'']"

definition debian_system_libs :: "string list" where
  "debian_system_libs =
     [''/usr/lib/x86_64-linux-gnu/libavcodec.so'', ''/usr/lib/x86_64-linux-gnu/libavformat.so'',
      ''/usr/lib/x86_64-linux-gnu/libavutil.so'',
      ''/usr/lib/x86_64-linux-gnu/libboost_filesystem.so.1.67.0'',
      ''/usr/lib/x86_64-linux-gnu/libboost_program_options.so.1.67.0'',
      ''/usr/lib/x86_64-linux-gnu/libboost_system.so.1.67.0'',
      ''/usr/lib/x86_64-linux-gnu/libboost_thread.so.1.67.0'',
      ''/usr/lib/x86_64-linux-gnu/libswresample.so'', ''/usr/lib/x86_64-linux-gnu/libswscale.so'',
      ''/usr/lib/x86_64-linux-gnu/libSDL2.so'', ''/usr/lib/x86_64-linux-gnu/libbz2.so'',
      ''/usr/lib/x86_64-linux-gnu/libluajit-5.1.so'', ''/usr/lib/x86_64-linux-gnu/libopenal.so'',
      ''/usr/lib/x86_64-linux-gnu/libpng16.so'']"

text \<open>
  Lines 334-415: which system libraries to ship. No branch assigns \<^verbatim>\<open>system_libs\<close> for
  another distribution (the value is then \<open>None\<close>: the name is unbound), and
  \<^verbatim>\<open>"Void" in distro\<close> is a \<^verbatim>\<open>TypeError\<close> when \<^verbatim>\<open>distro\<close> is \<^verbatim>\<open>None\<close>.
\<close>

definition pkg_system_libs :: "string option \<Rightarrow> string list option io" where
  "pkg_system_libs distro w =
     (if getenv_set w ''TES3MP_FORGE'' then (Inr (Some forge_system_libs), w)
      else case distro of
             None \<Rightarrow> (Inl TypeError, w)
           | Some d \<Rightarrow>
               if str_in ''Void'' d then (Inr (Some void_system_libs), w)
               else if str_in ''Ubuntu'' d \<or> str_in ''Debian'' d
                 then (Inr (Some debian_system_libs), w)
               else (Inr None, w))"

text \<open>Lines 417-464 (the assignment of lines 364-377 is always overwritten here).\<close>

definition pkg_openmw_libs :: "bool \<Rightarrow> string list" where
  "pkg_openmw_libs serveronly =
     [os_path_join SRC_DIR [''bullet'', ''build'', ''src'', ''BulletCollision'',
                            ''libBulletCollision.so.2.86''],
      os_path_join SRC_DIR [''bullet'', ''build'', ''src'', ''LinearMath'', ''libLinearMath.so.2.86''],
      os_path_join SRC_DIR [''mygui'', ''build'', ''lib'', ''libMyGUIEngine.so.3.4.0''],
      os_path_join SRC_DIR [''unshield'', ''build'', ''lib'', ''libunshield.so'']]
     @ (if serveronly then []
        else map (\<lambda>n. os_path_join SRC_DIR [''osg-openmw'', ''build'', ''lib'', n])
               [''libOpenThreads.so.20'', ''libosg.so.130'', ''libosgAnimation.so.130'',
                ''libosgDB.so.130'', ''libosgFX.so.130'', ''libosgGA.so.130'',
                ''libosgParticle.so.130'', ''libosgText.so.130'', ''libosgUtil.so.130'',
                ''libosgViewer.so.130'', ''libosgWidget.so.130''])"

definition copy_into :: "string \<Rightarrow> string \<Rightarrow> unit io" where
  "copy_into dst b = steps
     [emit_log (PyStr (''Copying '' @ b @ '' to '' @ dst)) DEBUG False,
      shutil_copy b dst]"

text \<open>Lines 466-515: fill the staging directory, write the archive, remove the staging directory.\<close>

definition pkg_stage_and_write ::
  "string \<Rightarrow> string option \<Rightarrow> bool \<Rightarrow> string \<Rightarrow> string \<Rightarrow> string list option \<Rightarrow> bool io" where
  "pkg_stage_and_write pkgname distro serveronly pkg_path tmpdir system_libs =
     and_then (steps
       [emit_log (PyStr ''Copying binaries'') INFO False,
        for_each (pkg_bins serveronly) (copy_into (os_path_join tmpdir [pkgname])),
        emit_log (PyStr ''Copying system libs'') INFO False,
        (case system_libs of
           None \<Rightarrow> throw UnboundLocalError
         | Some libs \<Rightarrow> for_each libs (copy_into (os_path_join (os_path_join tmpdir [pkgname]) [''lib'']))),
        emit_log (PyStr ''Copying openmw libs'') INFO False,
        for_each (pkg_openmw_libs serveronly)
          (copy_into (os_path_join (os_path_join tmpdir [pkgname]) [''lib''])),
        emit_log (PyStr ''Copying resources'') INFO False,
        shutil_copytree (os_path_join SRC_DIR [''tes3mp'', ''build'', ''resources''])
          (os_path_join (os_path_join tmpdir [pkgname]) [''resources'']),
        (if serveronly then steps
           [emit_log (PyStr ''Copying osgPlugins-3.4.0'') INFO False,
            shutil_copytree ''/usr/lib/x86_64-linux-gnu/osgPlugins-3.4.0''
              (os_path_join (os_path_join (os_path_join tmpdir [pkgname]) [''lib''])
                 [''osgPlugins-3.4.0''])]
         else steps
           [emit_log (PyStr ''Copying osgPlugins-3.4.1'') INFO False,
            shutil_copytree (os_path_join SRC_DIR [''osg-openmw'', ''build'', ''lib'', ''osgPlugins-3.4.1''])
              (os_path_join (os_path_join (os_path_join tmpdir [pkgname]) [''lib''])
                 [''osgPlugins-3.4.1''])]),
        (\<lambda>w. steps
           [os_chdir tmpdir,
            emit_log (PyStr (''Creating package now: '' @ pkg_path)) INFO False,
            tar_write pkg_path pkgname,
            os_chdir (cwd w),
            emit_log (PyStr (''Removing: '' @ tmpdir)) INFO False,
            shutil_rmtree tmpdir] w)])
       (\<lambda>_. ret True)"

text \<open>
  \<^verbatim>\<open>make_portable_package\<close> (lines 284-515). \<^verbatim>\<open>out_dir\<close> defaults to
  \<^verbatim>\<open>os.getenv("HOME")\<close>, which may be \<^verbatim>\<open>None\<close>: then \<^verbatim>\<open>os.path.isdir\<close> raises
  \<^verbatim>\<open>TypeError\<close>.
\<close>

definition make_portable_package ::
  "external \<Rightarrow> string \<Rightarrow> string option \<Rightarrow> bool \<Rightarrow> string option \<Rightarrow> bool \<Rightarrow> bool io" where
  "make_portable_package X pkgname distro frc out_dir serveronly =
     and_then (need_str out_dir) (\<lambda>od.
     and_then (\<lambda>w. only_if (\<not> os_path_isdir w od) (steps
       [emit_log (PyStr (''Out dir doesn'' @ sq @ ''t exist, creating it: '' @ od)) INFO False,
        os_makedirs od]) w) (\<lambda>_.
     and_then (\<lambda>w.
       (if os_path_exists w (os_path_join od [pkgname @ ''.tar.bz2'']) \<and> \<not> frc
        then error_and_die (''Path exists: '' @ os_path_join od [pkgname @ ''.tar.bz2''])
        else if os_path_exists w (os_path_join od [pkgname @ ''.tar.bz2'']) \<and> frc
        then steps
          [emit_log (PyStr (''Force removing '' @ os_path_join od [pkgname @ ''.tar.bz2''])) INFO False,
           os_remove (os_path_join od [pkgname @ ''.tar.bz2''])]
        else ret ()) w) (\<lambda>_.
     and_then (emit_log (PyStr (''Creating a portable package: ''
                 @ os_path_join od [pkgname @ ''.tar.bz2''])) INFO False) (\<lambda>_.
     and_then (mkdtemp X pkgname) (\<lambda>tmpdir.
     and_then (emit_log (PyStr (''Making: '' @ os_path_join tmpdir [pkgname])) INFO False) (\<lambda>_.
     and_then (os_makedirs (os_path_join (os_path_join tmpdir [pkgname]) [''lib''])) (\<lambda>_.
     and_then (pkg_system_libs distro) (\<lambda>system_libs.
       pkg_stage_and_write pkgname distro serveronly
         (os_path_join od [pkgname @ ''.tar.bz2'']) tmpdir system_libs))))))))"

subsection \<open>Reading a trace\<close>

text \<open>The command lines of the programs the process tried to start, in order.\<close>

fun cmds :: "event list \<Rightarrow> string list list" where
  "cmds [] = []"
| "cmds (Exec cmd status # es) = cmd # cmds es"
| "cmds (_ # es) = cmds es"


subsection \<open>Predicates on runs\<close>

text \<open>
  \<open>traces m Q\<close>: every run of \<open>m\<close> only appends to the trace, and its result together
  with the events it appended satisfies \<open>Q\<close>.
\<close>

definition traces :: "'a io \<Rightarrow> (exn + 'a \<Rightarrow> event list \<Rightarrow> bool) \<Rightarrow> bool" where
  "traces m Q = (\<forall>w r w'. m w = (r, w') \<longrightarrow> (\<exists>evs. trace w' = trace w @ evs \<and> Q r evs))"

text \<open>\<open>keeps P h\<close>: a block of \<^verbatim>\<open>main\<close> that returns preserves \<open>P\<close>.\<close>

definition keeps :: "('s \<Rightarrow> world \<Rightarrow> bool) \<Rightarrow> ('s \<Rightarrow> 's io) \<Rightarrow> bool" where
  "keeps P h = (\<forall>v w v' w'. P v w \<longrightarrow> h v w = (Inr v', w') \<longrightarrow> P v' w')"

text \<open>A configure or compile command of the library that exited with a nonzero status.\<close>

fun fatal_failure :: "lib_args \<Rightarrow> event \<Rightarrow> bool" where
  "fatal_failure a (Exec cmd (Some rc)) = ((cmd = build_cmd a \<or> cmd = make_cmd a) \<and> rc \<noteq> 0)"
| "fatal_failure a _ = False"

text \<open>What \<^verbatim>\<open>error_and_die\<close> writes for such a command.\<close>

definition death_note :: "lib_args \<Rightarrow> string list \<Rightarrow> string" where
  "death_note a cmd =
     ''ERROR: '' @ (if cmd = build_cmd a then ''cmake'' else ''make'')
     @ '' exited nonzero! Exiting ...'' @ [CHR 0x0A]"

text \<open>
  The events of a run are free of such failures, or the run ended with \<^verbatim>\<open>SystemExit(1)\<close>
  right after the first one: the failed command, the log record of its output, the note.
\<close>

definition died_at_failure :: "lib_args \<Rightarrow> exn + 'a \<Rightarrow> event list \<Rightarrow> bool" where
  "died_at_failure a r evs =
     (list_all (\<lambda>e. \<not> fatal_failure a e) evs
      \<or> (r = Inl (SystemExit 1)
         \<and> (\<exists>pre cmd rc m.
              evs = pre @ [Exec cmd (Some rc), Log INFO m, Stderr (death_note a cmd)]
              \<and> list_all (\<lambda>e. \<not> fatal_failure a e) pre
              \<and> fatal_failure a (Exec cmd (Some rc)))))"


text \<open>
  A run issued the commands \<open>C\<close> when it returned, and an initial part of them when it
  raised.
\<close>

definition issues :: "string list list \<Rightarrow> exn + 'a \<Rightarrow> event list \<Rightarrow> bool" where
  "issues C r evs = (prefix (cmds evs) C \<and> (\<forall>x. r = Inr x \<longrightarrow> cmds evs = C))"


text \<open>A run that returned has written the archive.\<close>

definition wrote :: "string \<Rightarrow> string \<Rightarrow> exn + 'a \<Rightarrow> event list \<Rightarrow> bool" where
  "wrote path name r evs = (\<forall>x. r = Inr x \<longrightarrow> TarWrite path name \<in> set evs)"

subsection \<open>Concrete worlds\<close>

text \<open>
  An outside in which every program starts, prints nothing and leaves the file system as
  it is; its exit status is a function of the command line.
\<close>

definition ext_exit :: "(string list \<Rightarrow> int) \<Rightarrow> external" where
  "ext_exit status =
     \<lparr>popen = (\<lambda>w cmd env. Some \<lparr>returncode = status cmd, out = [], err = [], fs_after = fs w\<rparr>),
      os_system = (\<lambda>w cmd. (0, fs w)),
      tmpname = (\<lambda>w sfx. ''/tmp/tmp0'' @ sfx)\<rparr>"


definition world_of :: "filesystem \<Rightarrow> world" where
  "world_of f = \<lparr>fs = f, cwd = ''/'', uid = 1000, environ = Map.empty, trace = []\<rparr>"

text \<open>Bullet cloned and installed.\<close>

definition fs_bullet :: filesystem where
  "fs_bullet =
     [''/opt/build-openmw/src'' \<mapsto> Dir,
      ''/opt/build-openmw/src/bullet'' \<mapsto> Dir,
      ''/opt/build-openmw/bullet'' \<mapsto> Dir,
      ''/opt/build-openmw/bullet/lib/libLinearMath.so'' \<mapsto> File]"

text \<open>Bullet installed, its source directory gone.\<close>

definition fs_bullet_no_source :: filesystem where
  "fs_bullet_no_source =
     [''/opt/build-openmw/src'' \<mapsto> Dir,
      ''/opt/build-openmw/bullet'' \<mapsto> Dir,
      ''/opt/build-openmw/bullet/lib/libLinearMath.so'' \<mapsto> File]"

text \<open>Bullet cloned, nothing installed.\<close>

definition fs_bullet_source :: filesystem where
  "fs_bullet_source =
     [''/opt/build-openmw/src'' \<mapsto> Dir,
      ''/opt/build-openmw/src/bullet'' \<mapsto> Dir]"

text \<open>The OpenMW fork of OSG cloned, nothing installed.\<close>

definition fs_osg_source :: filesystem where
  "fs_osg_source =
     [''/opt/build-openmw/src'' \<mapsto> Dir,
      ''/opt/build-openmw/src/osg-openmw'' \<mapsto> Dir]"

text \<open>An archive from an earlier run in the home directory; nothing has been built.\<close>

definition fs_old_archive :: filesystem where
  "fs_old_archive =
     [''/home/user'' \<mapsto> Dir,
      ''/home/user/tes3mp.tar.bz2'' \<mapsto> File]"

text \<open>
  The same archive on a machine where everything has been built: the root, the home
  directory and the two resource directories are directories, nothing exists under
  \<^verbatim>\<open>/tmp\<close>, and every other path is a regular file.
\<close>

definition fs_all_built :: filesystem where
  "fs_all_built p =
     (if p \<in> {''/'', ''/home/user'', ''/opt/build-openmw/src/tes3mp/build/resources'',
               ''/opt/build-openmw/src/osg-openmw/build/lib/osgPlugins-3.4.1''} then Some Dir
      else if prefix ''/tmp'' p then None
      else Some File)"

text \<open>No flag given on the command line.\<close>

definition no_flags :: parsed where
  "no_flags =
     \<lparr>p_sha = None, p_tag = None, p_branch = None, p_build_bullet = False,
      p_build_mygui = False, p_build_upstream_osg = False, p_build_unshield = False,
      p_force_bullet = False, p_force_mygui = False, p_force_openmw = False,
      p_force_osg = False, p_force_tes3mp = False, p_force_unshield = False,
      p_force_pkg = False, p_force_all = False, p_force_all_tes3mp = False,
      p_system_osg = False, p_install_prefix = None, p_jobs = None, p_make_install = False,
      p_make_pkg = False, p_no_pull = False, p_out = None, p_patch = None,
      p_skip_install_pkgs = False, p_src_dir = None, p_update = False, p_tes3mp = False,
      p_tes3mp_server_only = False, p_with_corescripts = False, p_with_essimporter = False,
      p_without_cs = False, p_without_iniimporter = False, p_without_launcher = False,
      p_without_wizard = False, p_verbose = False\<rparr>"

section \<open>Properties\<close>

subsection \<open>Unfolding rules\<close>

lemmas path_defs = os_path_join_def join1_def abs_path_def os_path_exists_def
  os_path_isfile_def os_path_isdir_def INSTALL_PREFIX_def SRC_DIR_def

lemmas io_defs = ret_def throw_def and_then_def discard_def only_if_def emit_def
  emit_log_def error_and_die_def execute_shell_def need_str_def decode_def

lemmas fs_defs = os_chdir_def shutil_rmtree_def os_mkdir_def path_under_def

lemmas build_defs = build_library_def clone_source_def remove_previous_install_def
  git_clean_src_def apply_patch_def run_cmake_def run_make_def run_make_install_def
  build_cmd_def make_cmd_def dest_of_def lib_defaults_def OPENMW_OSG_BRANCH_def UPSTREAM_OSG_VERSION_def

lemmas example_defs = ext_exit_def world_of_def fs_bullet_def fs_bullet_no_source_def
  fs_osg_source_def fs_old_archive_def fs_bullet_source_def main_locals_def bullet_args_def osg_openmw_args_def
  BULLET_VERSION_def osg_cmake_args_def

subsection \<open>The skip branch\<close>

text \<open>
  C1. When the check file exists as a regular file and \<open>force\<close> is false,
  \<open>build_library\<close> starts no program and changes nothing on disk: the world it
  returns is the world it was given with one log record, "<libname> found!", appended.
\<close>

theorem build_library_skip:
  assumes "check_file a = Some cf"
    and "os_path_exists w cf"
    and "os_path_isfile w cf"
    and "\<not> force a"
  shows "build_library X a w =
           (Inr (), w\<lparr>trace := trace w @ [Log INFO (PyStr (libname a @ '' found!''))]\<rparr>)"
  using assms by (simp add: build_library_def emit_log_def emit_def)

text \<open>
  The skip branch at a concrete input: Bullet is cloned and installed, \<open>force\<close> is off, and
  the only effect of the build step is the log record.
\<close>

theorem build_library_skip_witness:
  "check_file (bullet_args (main_locals ''5'' None))
     = Some ''/opt/build-openmw/bullet/lib/libLinearMath.so''
   \<and> os_path_exists (world_of fs_bullet) ''/opt/build-openmw/bullet/lib/libLinearMath.so''
   \<and> os_path_isfile (world_of fs_bullet) ''/opt/build-openmw/bullet/lib/libLinearMath.so''
   \<and> \<not> force (bullet_args (main_locals ''5'' None))
   \<and> build_library (ext_exit (\<lambda>_. 0)) (bullet_args (main_locals ''5'' None)) (world_of fs_bullet)
       = (Inr (), (world_of fs_bullet)\<lparr>trace := [Log INFO (PyStr ''bullet found!'')]\<rparr>)"
proof -
  have 1: "check_file (bullet_args (main_locals ''5'' None))
     = Some ''/opt/build-openmw/bullet/lib/libLinearMath.so''"
    by (simp add: example_defs path_defs lib_defaults_def)
  have 2: "os_path_exists (world_of fs_bullet) ''/opt/build-openmw/bullet/lib/libLinearMath.so''"
    by (simp add: example_defs path_defs)
  have 3: "os_path_isfile (world_of fs_bullet) ''/opt/build-openmw/bullet/lib/libLinearMath.so''"
    by (simp add: example_defs path_defs)
  have 4: "\<not> force (bullet_args (main_locals ''5'' None))"
    by (simp add: example_defs lib_defaults_def)
  from build_library_skip [OF 1 2 3 4, of "ext_exit (\<lambda>_. 0)"] 1 2 3 4
  show ?thesis by (simp add: bullet_args_def lib_defaults_def world_of_def)
qed

subsection \<open>A missing source directory\<close>





subsection \<open>Unsupported distributions\<close>

text \<open>
  C7. When the lower-cased distribution string contains none of \<open>void\<close>, \<open>arch\<close>,
  \<open>debian\<close>, \<open>devuan\<close>, \<open>ubuntu\<close>, \<open>mint\<close>, \<open>fedora\<close>, \<open>install_packages\<close> ends
  the process with status 1 after its announcement and the error message, without
  starting any program, and so does the installation step of \<open>main\<close>; with the
  skip-install-packages flag that step does nothing at all, so \<open>install_packages\<close> is
  not invoked.
\<close>

theorem unsupported_distro_fatal:
  assumes "\<not> str_in ''void'' (lower d)" and "\<not> str_in ''arch'' (lower d)"
    and "\<not> str_in ''debian'' (lower d)" and "\<not> str_in ''devuan'' (lower d)"
    and "\<not> str_in ''ubuntu'' (lower d)" and "\<not> str_in ''mint'' (lower d)"
    and "\<not> str_in ''fedora'' (lower d)"
  shows "install_packages X g (Some d) verb w =
           (Inl (SystemExit 1),
            w\<lparr>trace := trace w @
               [Log INFO (PyStr ''Attempting to install dependency packages, please enter your sudo password as needed...''),
                Stderr (''ERROR: Your OS is not yet supported!  If you think you know what you are doing, you can use ''
                        @ sq @ ''-S'' @ sq @ '' to continue anyways. Exiting ...'' @ [CHR 0x0A])]\<rparr>)
       \<and> (m_distro v = Some d \<and> \<not> m_skip_install_pkgs v \<longrightarrow>
            main_install X v w =
              (Inl (SystemExit 1),
               w\<lparr>trace := trace w @
               [Log INFO (PyStr ''Attempting to install dependency packages, please enter your sudo password as needed...''),
                Stderr (''ERROR: Your OS is not yet supported!  If you think you know what you are doing, you can use ''
                        @ sq @ ''-S'' @ sq @ '' to continue anyways. Exiting ...'' @ [CHR 0x0A])]\<rparr>))
       \<and> (m_skip_install_pkgs v \<longrightarrow> main_install X v w = (Inr (), w))"
proof -
  have ip: "install_packages X g' (Some d) verb' w =
           (Inl (SystemExit 1),
            w\<lparr>trace := trace w @
               [Log INFO (PyStr ''Attempting to install dependency packages, please enter your sudo password as needed...''),
                Stderr (''ERROR: Your OS is not yet supported!  If you think you know what you are doing, you can use ''
                        @ sq @ ''-S'' @ sq @ '' to continue anyways. Exiting ...'' @ [CHR 0x0A])]\<rparr>)"
    for g' verb'
    using assms
    by (simp add: install_packages_def and_then_def emit_log_def emit_def error_and_die_def throw_def)
  show ?thesis
    by (simp add: ip main_install_def only_if_def and_then_def ret_def)
qed

text \<open>The same for a distribution that is not supported, with and without the flag.\<close>

theorem unsupported_distro_fatal_witness:
  "\<not> str_in ''void'' (lower ''Gentoo'') \<and> \<not> str_in ''arch'' (lower ''Gentoo'')
   \<and> \<not> str_in ''debian'' (lower ''Gentoo'') \<and> \<not> str_in ''devuan'' (lower ''Gentoo'')
   \<and> \<not> str_in ''ubuntu'' (lower ''Gentoo'') \<and> \<not> str_in ''mint'' (lower ''Gentoo'')
   \<and> \<not> str_in ''fedora'' (lower ''Gentoo'')
   \<and> fst (main_install (ext_exit (\<lambda>_. 0)) ((main_locals ''5'' None)\<lparr>m_distro := Some ''Gentoo''\<rparr>)
            (world_of fs_bullet)) = Inl (SystemExit 1)
   \<and> main_install (ext_exit (\<lambda>_. 0))
        ((main_locals ''5'' None)\<lparr>m_distro := Some ''Gentoo'', m_skip_install_pkgs := True\<rparr>)
        (world_of fs_bullet) = (Inr (), world_of fs_bullet)"
proof -
  have h: "\<not> str_in ''void'' (lower ''Gentoo'')" "\<not> str_in ''arch'' (lower ''Gentoo'')"
    "\<not> str_in ''debian'' (lower ''Gentoo'')" "\<not> str_in ''devuan'' (lower ''Gentoo'')"
    "\<not> str_in ''ubuntu'' (lower ''Gentoo'')" "\<not> str_in ''mint'' (lower ''Gentoo'')"
    "\<not> str_in ''fedora'' (lower ''Gentoo'')"
    by (simp_all add: lower_def lower_char_def)
  from unsupported_distro_fatal [OF h, of "ext_exit (\<lambda>_. 0)" module_pkgs False "world_of fs_bullet"
      "(main_locals ''5'' None)\<lparr>m_distro := Some ''Gentoo''\<rparr>"]
    unsupported_distro_fatal [OF h, of "ext_exit (\<lambda>_. 0)" module_pkgs False "world_of fs_bullet"
      "(main_locals ''5'' None)\<lparr>m_distro := Some ''Gentoo'', m_skip_install_pkgs := True\<rparr>"]
    h
  show ?thesis by (simp add: main_locals_def)
qed

subsection \<open>Rules for traces\<close>

lemma tracesI:
  "(\<And>w r w'. m w = (r, w') \<Longrightarrow> \<exists>evs. trace w' = trace w @ evs \<and> Q r evs) \<Longrightarrow> traces m Q"
  by (simp add: traces_def)

lemma tracesD:
  "traces m Q \<Longrightarrow> m w = (r, w') \<Longrightarrow> \<exists>evs. trace w' = trace w @ evs \<and> Q r evs"
  by (simp add: traces_def)


lemma traces_ret: "Q (Inr x) [] \<Longrightarrow> traces (ret x) Q"
  by (simp add: traces_def ret_def)

lemma traces_throw: "Q (Inl e) [] \<Longrightarrow> traces (throw e) Q"
  by (simp add: traces_def throw_def)

lemma traces_emit: "Q (Inr ()) [ev] \<Longrightarrow> traces (emit ev) Q"
  by (auto simp: traces_def emit_def)

lemma traces_emit_log: "Q (Inr ()) [Log lvl msg] \<Longrightarrow> Q (Inr ()) [] \<Longrightarrow> traces (emit_log msg lvl q) Q"
  by (simp add: emit_log_def traces_emit traces_ret)

lemma traces_and_then:
  assumes "traces m Q1" and "\<And>x. traces (f x) Q2"
    and "\<And>e evs. Q1 (Inl e) evs \<Longrightarrow> Q (Inl e) evs"
    and "\<And>x evs1 r evs2. Q1 (Inr x) evs1 \<Longrightarrow> Q2 r evs2 \<Longrightarrow> Q r (evs1 @ evs2)"
  shows "traces (and_then m f) Q"
proof (rule tracesI)
  fix w r w'
  assume run: "and_then m f w = (r, w')"
  obtain r1 w1 where m: "m w = (r1, w1)" by (cases "m w")
  from tracesD [OF assms(1) m] obtain evs1 where
    t1: "trace w1 = trace w @ evs1" and q1: "Q1 r1 evs1" by blast
  show "\<exists>evs. trace w' = trace w @ evs \<and> Q r evs"
  proof (cases r1)
    case (Inl e)
    with run m have "r = Inl e" "w' = w1" by (simp_all add: and_then_def)
    with t1 q1 Inl assms(3) show ?thesis by auto
  next
    case (Inr x)
    with run m have f: "f x w1 = (r, w')" by (simp add: and_then_def)
    from tracesD [OF assms(2) f] obtain evs2 where
      t2: "trace w' = trace w1 @ evs2" and q2: "Q2 r evs2" by blast
    from t1 t2 have "trace w' = trace w @ evs1 @ evs2" by simp
    moreover from q1 q2 Inr assms(4) have "Q r (evs1 @ evs2)" by simp
    ultimately show ?thesis by blast
  qed
qed

lemma traces_world: "(\<And>w. traces (f w) Q) \<Longrightarrow> traces (\<lambda>w. f w w) Q"
  by (simp add: traces_def)

lemma traces_error_and_die:
  "Q (Inl (SystemExit 1)) [Stderr (''ERROR: '' @ msg @ '' Exiting ...'' @ [CHR 0x0A])]
   \<Longrightarrow> traces (error_and_die msg) Q"
  by (auto simp: traces_def error_and_die_def and_then_def emit_def throw_def)

lemma traces_execute_shell:
  assumes "Q (Inl FileNotFoundError)
             [Log DEBUG (PyStr (''EXECUTING: '' @ str_join '' '' cmd)), Exec cmd None]"
    and "\<And>rc output. Q (Inr (rc, output))
             [Log DEBUG (PyStr (''EXECUTING: '' @ str_join '' '' cmd)), Exec cmd (Some rc)]"
  shows "traces (execute_shell X cmd ev verb) Q"
  using assms
  by (auto simp: traces_def execute_shell_def and_then_def emit_log_def emit_def
           split: option.splits)

lemma traces_os_chdir: "(\<And>r. Q r []) \<Longrightarrow> traces (os_chdir p) Q"
  by (auto simp: traces_def os_chdir_def split: option.splits node.splits if_splits)

lemma traces_shutil_rmtree:
  "(\<And>e. Q (Inl e) []) \<Longrightarrow> (\<And>q. Q (Inr ()) [Rmtree q]) \<Longrightarrow> traces (shutil_rmtree p) Q"
  by (auto simp: traces_def shutil_rmtree_def split: option.splits node.splits if_splits)

lemma traces_os_mkdir:
  "(\<And>e. Q (Inl e) []) \<Longrightarrow> (\<And>q. Q (Inr ()) [Mkdir q]) \<Longrightarrow> traces (os_mkdir p) Q"
  by (auto simp: traces_def os_mkdir_def split: option.splits node.splits if_splits)


lemma traces_steps_Nil: "Q (Inr ()) [] \<Longrightarrow> traces (steps []) Q"
  by (simp add: traces_ret)

subsection \<open>Failures of configure and compile\<close>

lemma daf_clean: "list_all (\<lambda>e. \<not> fatal_failure a e) evs \<Longrightarrow> died_at_failure a r evs"
  by (simp add: died_at_failure_def)

lemma daf_append:
  assumes "died_at_failure a (Inr x) evs1" and "died_at_failure a r evs2"
  shows "died_at_failure a r (evs1 @ evs2)"
proof -
  from assms(1) have c1: "list_all (\<lambda>e. \<not> fatal_failure a e) evs1"
    by (simp add: died_at_failure_def)
  from assms(2) show ?thesis
    unfolding died_at_failure_def
  proof (elim disjE conjE exE)
    assume "list_all (\<lambda>e. \<not> fatal_failure a e) evs2"
    with c1 show "list_all (\<lambda>e. \<not> fatal_failure a e) (evs1 @ evs2) \<or>
      r = Inl (SystemExit 1) \<and> (\<exists>pre cmd rc m.
          evs1 @ evs2 = pre @ [Exec cmd (Some rc), Log INFO m, Stderr (death_note a cmd)] \<and>
          list_all (\<lambda>e. \<not> fatal_failure a e) pre \<and> fatal_failure a (Exec cmd (Some rc)))"
      by simp
  next
    fix pre cmd rc m
    assume "r = Inl (SystemExit 1)"
      and "evs2 = pre @ [Exec cmd (Some rc), Log INFO m, Stderr (death_note a cmd)]"
      and "list_all (\<lambda>e. \<not> fatal_failure a e) pre"
      and "fatal_failure a (Exec cmd (Some rc))"
    with c1 have "r = Inl (SystemExit 1) \<and>
        evs1 @ evs2 = (evs1 @ pre) @ [Exec cmd (Some rc), Log INFO m, Stderr (death_note a cmd)] \<and>
        list_all (\<lambda>e. \<not> fatal_failure a e) (evs1 @ pre) \<and> fatal_failure a (Exec cmd (Some rc))"
      by simp
    then show "list_all (\<lambda>e. \<not> fatal_failure a e) (evs1 @ evs2) \<or>
      r = Inl (SystemExit 1) \<and> (\<exists>pre cmd rc m.
          evs1 @ evs2 = pre @ [Exec cmd (Some rc), Log INFO m, Stderr (death_note a cmd)] \<and>
          list_all (\<lambda>e. \<not> fatal_failure a e) pre \<and> fatal_failure a (Exec cmd (Some rc)))"
      by blast
  qed
qed

lemma daf_Inl: "died_at_failure a (Inl e :: exn + 'a) evs \<Longrightarrow> died_at_failure a (Inl e :: exn + 'b) evs"
  by (simp add: died_at_failure_def)

lemma daf_and_then:
  "traces m (died_at_failure a) \<Longrightarrow> (\<And>x. traces (f x) (died_at_failure a))
   \<Longrightarrow> traces (and_then m f) (died_at_failure a)"
  by (erule traces_and_then, assumption, erule daf_Inl, erule daf_append, assumption)

lemma daf_steps_Cons:
  "traces m (died_at_failure a) \<Longrightarrow> traces (steps ms) (died_at_failure a)
   \<Longrightarrow> traces (steps (m # ms)) (died_at_failure a)"
  by (simp add: daf_and_then)

lemma daf_steps_Nil: "traces (steps []) (died_at_failure a)"
  by (simp add: traces_ret daf_clean)

lemma daf_discard:
  "traces m (died_at_failure a) \<Longrightarrow> traces (discard m) (died_at_failure a)"
  by (simp add: discard_def daf_and_then traces_ret daf_clean)

lemma daf_only_if:
  "(c \<Longrightarrow> traces m (died_at_failure a)) \<Longrightarrow> traces (only_if c m) (died_at_failure a)"
  by (simp add: only_if_def traces_ret daf_clean)

lemma daf_ret: "traces (ret x) (died_at_failure a)"
  by (simp add: traces_ret daf_clean)

lemma daf_throw: "traces (throw e) (died_at_failure a)"
  by (simp add: traces_throw daf_clean)

lemma daf_emit_log: "traces (emit_log msg lvl q) (died_at_failure a)"
  by (simp add: traces_emit_log daf_clean)

lemma daf_error_and_die: "traces (error_and_die msg) (died_at_failure a)"
  by (simp add: traces_error_and_die daf_clean)

lemma daf_os_chdir: "traces (os_chdir p) (died_at_failure a)"
  by (simp add: traces_os_chdir daf_clean)

lemma daf_shutil_rmtree: "traces (shutil_rmtree p) (died_at_failure a)"
  by (simp add: traces_shutil_rmtree daf_clean)

lemma daf_os_mkdir: "traces (os_mkdir p) (died_at_failure a)"
  by (simp add: traces_os_mkdir daf_clean)

lemma daf_need_str: "traces (need_str x) (died_at_failure a)"
  by (simp add: need_str_def daf_ret daf_throw split: option.splits)

lemma daf_decode: "traces (decode x) (died_at_failure a)"
  by (simp add: decode_def daf_ret daf_throw split: pyval.splits)

lemma daf_execute_shell:
  "cmd \<noteq> build_cmd a \<Longrightarrow> cmd \<noteq> make_cmd a
   \<Longrightarrow> traces (execute_shell X cmd ev verb) (died_at_failure a)"
  by (rule traces_execute_shell) (simp_all add: daf_clean)

lemmas daf_intros = daf_and_then daf_steps_Cons daf_steps_Nil daf_discard daf_only_if daf_ret
  daf_throw daf_emit_log daf_error_and_die daf_os_chdir daf_shutil_rmtree daf_os_mkdir
  daf_need_str daf_decode daf_execute_shell

lemma daf_if:
  "(c \<Longrightarrow> traces m (died_at_failure a)) \<Longrightarrow> (\<not> c \<Longrightarrow> traces m' (died_at_failure a))
   \<Longrightarrow> traces (if c then m else m') (died_at_failure a)"
  by simp

lemma git_not_fatal [simp]:
  "''git'' # xs \<noteq> build_cmd a" "''git'' # xs \<noteq> make_cmd a"
  by (simp_all add: build_cmd_def make_cmd_def)

lemma daf_git_clean_src: "traces (git_clean_src X a) (died_at_failure a)"
  unfolding git_clean_src_def
  by (intro daf_intros daf_if git_not_fatal)


lemma traces_cond_world:
  "(\<And>w. c w \<Longrightarrow> traces m Q) \<Longrightarrow> (\<And>w. \<not> c w \<Longrightarrow> traces m' Q)
   \<Longrightarrow> traces (\<lambda>w. if c w then m w else m' w) Q"
  by (auto simp: traces_def)

lemma daf_clone_source: "traces (clone_source X a) (died_at_failure a)"
proof -
  have eq: "clone_source X a =
     (\<lambda>w. if \<not> os_path_exists w (os_path_join (src_dir a) [dest_of a]) then steps
        [emit_log (PyStr (dest_of a @ '' source directory not found, cloning...'')) INFO False,
         os_chdir (src_dir a),
         and_then (need_str (git_url a)) (\<lambda>url.
           if str_in ''osg-openmw'' (dest_of a)
           then discard (execute_shell X
                  [''git'', ''clone'', ''-b'', OPENMW_OSG_BRANCH, url, dest_of a] None (verbose a))
           else discard (execute_shell X [''git'', ''clone'', url, dest_of a] None (verbose a))),
         (\<lambda>w'. if \<not> os_path_exists w' (os_path_join (src_dir a) [libname a])
                then error_and_die (''Could not clone '' @ dest_of a @ '' for some reason!'') w'
                else ret () w')] w
      else ret () w)"
    by (rule ext) (simp add: clone_source_def)
  show ?thesis
    unfolding eq
    by (intro traces_cond_world daf_intros daf_if git_not_fatal)
qed

lemma daf_remove_previous_install: "traces (remove_previous_install a) (died_at_failure a)"
proof -
  have eq: "remove_previous_install a =
     (\<lambda>w. if force a \<and> os_path_exists w (os_path_join (install_prefix a) [libname a]) then steps
        [emit_log (PyStr (libname a @ '' forcing removal of previous install'')) INFO False,
         shutil_rmtree (os_path_join (install_prefix a) [libname a])] w
      else ret () w)"
    by (rule ext) (simp add: remove_previous_install_def)
  show ?thesis
    unfolding eq by (intro traces_cond_world daf_intros)
qed

lemma daf_os_system:
  "traces (\<lambda>w. let (code, fs') = os_system X w c;
                   w' = w\<lparr>fs := fs', trace := trace w @ [System c code]\<rparr>
               in if code > 0 then error_and_die msg w' else ret () w') (died_at_failure a)"
  by (rule tracesI)
     (auto simp: Let_def error_and_die_def and_then_def emit_def throw_def ret_def
        died_at_failure_def split: prod.splits if_splits)

lemma daf_apply_patch: "traces (apply_patch X a) (died_at_failure a)"
proof (cases "patch a")
  case None
  then show ?thesis by (simp add: apply_patch_def daf_ret)
next
  case (Some p)
  show ?thesis
  proof (cases "p = []")
    case True
    with Some show ?thesis by (simp add: apply_patch_def daf_ret)
  next
    case False
    with Some have "apply_patch X a = steps
            [emit_log (PyStr (''Applying patch: '' @ p)) INFO False,
             (\<lambda>w. let (code, fs') = os_system X w (''patch -p1 < '' @ p);
                      w' = w\<lparr>fs := fs', trace := trace w @ [System (''patch -p1 < '' @ p) code]\<rparr>
                  in if code > 0 then error_and_die ''There was a problem applying the patch!'' w'
                     else ret () w')]"
      by (simp add: apply_patch_def)
    then show ?thesis
      by (simp only:) (intro daf_intros daf_os_system)
  qed
qed

lemma daf_death:
  "fatal_failure a (Exec cmd (Some rc)) \<Longrightarrow>
   died_at_failure a (Inl (SystemExit 1))
     [Log DEBUG d, Exec cmd (Some rc), Log INFO m, Stderr (death_note a cmd)]"
  unfolding died_at_failure_def
  by (rule disjI2, rule conjI, simp, rule exI [of _ "[Log DEBUG d]"]) auto

lemma daf_checked:
  assumes fatal: "cmd = build_cmd a \<or> cmd = make_cmd a"
    and dn: "''ERROR: '' @ msg @ '' Exiting ...'' @ [CHR 0x0A] = death_note a cmd"
  shows "traces (and_then (execute_shell X cmd ev verb) (\<lambda>(exitcode, output).
          only_if (exitcode \<noteq> 0) (steps
            [emit_log (snd output) INFO False, error_and_die msg]))) (died_at_failure a)"
proof (rule tracesI)
  fix w r w'
  assume run: "and_then (execute_shell X cmd ev verb) (\<lambda>(exitcode, output).
          only_if (exitcode \<noteq> 0) (steps
            [emit_log (snd output) INFO False, error_and_die msg])) w = (r, w')"
  show "\<exists>evs. trace w' = trace w @ evs \<and> died_at_failure a r evs"
  proof (cases "popen X (w\<lparr>trace := trace w @ [Log DEBUG (PyStr (''EXECUTING: '' @ str_join '' '' cmd))]\<rparr>) cmd ev")
    case None
    with run show ?thesis
      by (auto simp: io_defs died_at_failure_def)
  next
    case (Some p)
    show ?thesis
    proof (cases "returncode p = 0")
      case True
      with run Some show ?thesis
        by (auto simp: io_defs died_at_failure_def)
    next
      case False
      with run Some have "r = Inl (SystemExit 1)"
        and "trace w' = trace w @
               [Log DEBUG (PyStr (''EXECUTING: '' @ str_join '' '' cmd)),
                Exec cmd (Some (returncode p)),
                Log INFO (if verb then PyNone else PyBytes (err p)),
                Stderr (death_note a cmd)]"
        by (auto simp: io_defs dn [symmetric])
      moreover from False fatal have "fatal_failure a (Exec cmd (Some (returncode p)))"
        by simp
      ultimately show ?thesis using daf_death by blast
    qed
  qed
qed

lemma make_not_cmake: "make_cmd a \<noteq> build_cmd a"
  by (simp add: make_cmd_def build_cmd_def)

lemma daf_run_cmake: "traces (run_cmake X a) (died_at_failure a)"
proof -
  have rm: "traces (\<lambda>w. only_if (os_path_isdir w (os_path_join (src_dir a) [dest_of a, ''build'']))
                (shutil_rmtree (os_path_join (src_dir a) [dest_of a, ''build''])) w)
              (died_at_failure a)"
    unfolding only_if_def
    by (rule tracesI) (auto split: if_splits dest: tracesD [OF daf_shutil_rmtree] tracesD [OF daf_ret])
  show ?thesis
    unfolding run_cmake_def
    by (intro daf_intros rm daf_checked) (simp_all add: death_note_def)
qed

lemma daf_run_make: "traces (run_make X a) (died_at_failure a)"
  unfolding run_make_def
  by (intro daf_intros daf_checked) (simp_all add: death_note_def make_not_cmake)

lemma daf_case_prod:
  "(\<And>x y. traces (f x y) Q) \<Longrightarrow> traces (case_prod f p) Q"
  by (cases p) simp

lemma daf_run_make_install: "traces (run_make_install X a) (died_at_failure a)"
  unfolding run_make_install_def
  by (intro daf_intros daf_case_prod) (simp_all add: build_cmd_def make_cmd_def)

lemma daf_build_library: "traces (build_library X a) (died_at_failure a)"
proof (cases "check_file a")
  case None
  then have "build_library X a = throw TypeError"
    by (intro ext) (simp add: build_library_def throw_def)
  then show ?thesis by (simp add: daf_throw)
next
  case (Some cf)
  then have eq: "build_library X a =
     (\<lambda>w. if os_path_exists w cf \<and> os_path_isfile w cf \<and> \<not> force a
          then emit_log (PyStr (libname a @ '' found!'')) INFO False w
          else steps
            [emit_log (PyStr (libname a @ '' building now ...'')) INFO False,
             clone_source X a,
             remove_previous_install a,
             git_clean_src X a,
             apply_patch X a,
             os_chdir (os_path_join (src_dir a) [dest_of a]),
             run_cmake X a,
             run_make X a,
             run_make_install X a] w)"
    by (intro ext) (simp add: build_library_def)
  show ?thesis
    unfolding eq
    by (intro traces_cond_world daf_intros daf_clone_source daf_remove_previous_install
          daf_git_clean_src daf_apply_patch daf_run_cmake daf_run_make daf_run_make_install)
qed

lemma sole_failure:
  assumes eq: "pre @ e # post = pre' @ [e', l, s]"
    and e: "fatal_failure a e"
    and pre': "list_all (\<lambda>e. \<not> fatal_failure a e) pre'"
    and ls: "\<not> fatal_failure a l" "\<not> fatal_failure a s"
  shows "e = e' \<and> post = [l, s]"
proof -
  from eq have "e \<in> set (pre' @ [e', l, s])"
    by (metis in_set_conv_decomp)
  with e pre' ls have "length pre = length pre'" 
    using eq
    by (auto simp: append_eq_append_conv2 append_eq_Cons_conv Cons_eq_append_conv list_all_iff)
  with eq show ?thesis by simp
qed

text \<open>
  C4. In any run of \<open>build_library\<close>, if the configure command (\<open>build_cmd\<close>, cmake) or
  the compile command (\<open>make_cmd\<close>, make) exits with a nonzero status, the run ends with
  \<^verbatim>\<open>SystemExit(1)\<close>, and all that follows the failed command is the log record of its
  output and the error message on standard error: nothing is retried and no further
  program is started.
\<close>

theorem configure_compile_failure_fatal:
  assumes run: "build_library X a w = (r, w')"
    and tr: "trace w' = trace w @ pre @ Exec cmd (Some rc) # post"
    and cmd: "cmd = build_cmd a \<or> cmd = make_cmd a"
    and rc: "rc \<noteq> 0"
  shows "r = Inl (SystemExit 1) \<and> (\<exists>m. post = [Log INFO m, Stderr (death_note a cmd)])"
proof -
  from tracesD [OF daf_build_library run] obtain evs where
    evs: "trace w' = trace w @ evs" and daf: "died_at_failure a r evs" by blast
  from evs tr have dec: "evs = pre @ Exec cmd (Some rc) # post" by simp
  from cmd rc have f: "fatal_failure a (Exec cmd (Some rc))" by simp
  with dec have "\<not> list_all (\<lambda>e. \<not> fatal_failure a e) evs" by (auto simp: list_all_iff)
  with daf obtain pre' cmd' rc' m where r: "r = Inl (SystemExit 1)"
    and evs': "evs = pre' @ [Exec cmd' (Some rc'), Log INFO m, Stderr (death_note a cmd')]"
    and pre': "list_all (\<lambda>e. \<not> fatal_failure a e) pre'"
    by (auto simp: died_at_failure_def)
  from dec evs' have "pre @ Exec cmd (Some rc) # post
      = pre' @ [Exec cmd' (Some rc'), Log INFO m, Stderr (death_note a cmd')]" by simp
  from sole_failure [OF this f pre']
  have "Exec cmd (Some rc) = Exec cmd' (Some rc')"
    and "post = [Log INFO m, Stderr (death_note a cmd')]"
    by simp_all
  with r show ?thesis by auto
qed

text \<open>A run in which cmake exits with status 1: Bullet is cloned, nothing is installed.\<close>

lemma cmake_failure_run:
  "build_library (ext_exit (\<lambda>cmd. if cmd = build_cmd (bullet_args (main_locals ''5'' None)) then 1 else 0))
     (bullet_args (main_locals ''5'' None)) (world_of fs_bullet_source)
   = (Inl (SystemExit 1),
      \<lparr>fs = fs_bullet_source(''/opt/build-openmw/src/bullet/build'' \<mapsto> Dir),
       cwd = ''/opt/build-openmw/src/bullet/build'', uid = 1000, environ = Map.empty,
       trace =
         [Log INFO (PyStr ''bullet building now ...''),
          Log INFO (PyStr ''bullet executing source clean''),
          Log DEBUG (PyStr ''EXECUTING: git checkout -- .''),
          Exec [''git'', ''checkout'', ''--'', ''.''] (Some 0),
          Log DEBUG (PyStr ''EXECUTING: git clean -df''),
          Exec [''git'', ''clean'', ''-df''] (Some 0),
          Log INFO (PyStr ''bullet resetting source to the desired rev (2.86.1)''),
          Log DEBUG (PyStr ''EXECUTING: git checkout 2.86.1''),
          Exec [''git'', ''checkout'', ''2.86.1''] (Some 0),
          Log DEBUG (PyStr ''EXECUTING: git reset --hard 2.86.1''),
          Exec [''git'', ''reset'', ''--hard'', ''2.86.1''] (Some 0),
          Log INFO (PyStr ''bullet building with cmake''),
          Mkdir ''/opt/build-openmw/src/bullet/build'',
          Log INFO (PyStr ''bullet running cmake ...''),
          Log DEBUG (PyStr (''EXECUTING: '' @ str_join '' '' (build_cmd (bullet_args (main_locals ''5'' None)))))]
         @ Exec (build_cmd (bullet_args (main_locals ''5'' None))) (Some 1)
         # [Log INFO (PyBytes []),
            Stderr ''ERROR: cmake exited nonzero! Exiting ...\<newline>'']\<rparr>)"
  by (simp add: build_defs example_defs io_defs fs_defs path_defs)


text \<open>The theorem at that run: the failed command is followed by the log record and the note.\<close>

theorem configure_compile_failure_fatal_witness:
  "(1::int) \<noteq> 0
   \<and> trace (snd (build_library
         (ext_exit (\<lambda>cmd. if cmd = build_cmd (bullet_args (main_locals ''5'' None)) then 1 else 0))
         (bullet_args (main_locals ''5'' None)) (world_of fs_bullet_source)))
       = trace (world_of fs_bullet_source)
         @ [Log INFO (PyStr ''bullet building now ...''),
          Log INFO (PyStr ''bullet executing source clean''),
          Log DEBUG (PyStr ''EXECUTING: git checkout -- .''),
          Exec [''git'', ''checkout'', ''--'', ''.''] (Some 0),
          Log DEBUG (PyStr ''EXECUTING: git clean -df''),
          Exec [''git'', ''clean'', ''-df''] (Some 0),
          Log INFO (PyStr ''bullet resetting source to the desired rev (2.86.1)''),
          Log DEBUG (PyStr ''EXECUTING: git checkout 2.86.1''),
          Exec [''git'', ''checkout'', ''2.86.1''] (Some 0),
          Log DEBUG (PyStr ''EXECUTING: git reset --hard 2.86.1''),
          Exec [''git'', ''reset'', ''--hard'', ''2.86.1''] (Some 0),
          Log INFO (PyStr ''bullet building with cmake''),
          Mkdir ''/opt/build-openmw/src/bullet/build'',
          Log INFO (PyStr ''bullet running cmake ...''),
          Log DEBUG (PyStr (''EXECUTING: '' @ str_join '' '' (build_cmd (bullet_args (main_locals ''5'' None)))))]
         @ Exec (build_cmd (bullet_args (main_locals ''5'' None))) (Some 1)
         # [Log INFO (PyBytes []), Stderr ''ERROR: cmake exited nonzero! Exiting ...\<newline>'']
   \<and> fst (build_library
         (ext_exit (\<lambda>cmd. if cmd = build_cmd (bullet_args (main_locals ''5'' None)) then 1 else 0))
         (bullet_args (main_locals ''5'' None)) (world_of fs_bullet_source))
       = Inl (SystemExit 1)"
proof -
  have tr: "trace (snd (build_library
         (ext_exit (\<lambda>cmd. if cmd = build_cmd (bullet_args (main_locals ''5'' None)) then 1 else 0))
         (bullet_args (main_locals ''5'' None)) (world_of fs_bullet_source)))
       = trace (world_of fs_bullet_source)
         @ [Log INFO (PyStr ''bullet building now ...''),
          Log INFO (PyStr ''bullet executing source clean''),
          Log DEBUG (PyStr ''EXECUTING: git checkout -- .''),
          Exec [''git'', ''checkout'', ''--'', ''.''] (Some 0),
          Log DEBUG (PyStr ''EXECUTING: git clean -df''),
          Exec [''git'', ''clean'', ''-df''] (Some 0),
          Log INFO (PyStr ''bullet resetting source to the desired rev (2.86.1)''),
          Log DEBUG (PyStr ''EXECUTING: git checkout 2.86.1''),
          Exec [''git'', ''checkout'', ''2.86.1''] (Some 0),
          Log DEBUG (PyStr ''EXECUTING: git reset --hard 2.86.1''),
          Exec [''git'', ''reset'', ''--hard'', ''2.86.1''] (Some 0),
          Log INFO (PyStr ''bullet building with cmake''),
          Mkdir ''/opt/build-openmw/src/bullet/build'',
          Log INFO (PyStr ''bullet running cmake ...''),
          Log DEBUG (PyStr (''EXECUTING: '' @ str_join '' '' (build_cmd (bullet_args (main_locals ''5'' None)))))]
         @ Exec (build_cmd (bullet_args (main_locals ''5'' None))) (Some 1)
         # [Log INFO (PyBytes []), Stderr ''ERROR: cmake exited nonzero! Exiting ...\<newline>'']"
    by (subst cmake_failure_run) (simp add: world_of_def)
  have rc: "(1::int) \<noteq> 0" by simp
  from configure_compile_failure_fatal [OF prod.collapse [symmetric] tr disjI1 [OF refl] rc] tr rc
  show ?thesis by simp
qed

subsection \<open>The install step\<close>

text \<open>
  C9. The claim is that a nonzero exit status of \<^verbatim>\<open>make install\<close> is fatal. The code
  tests the captured standard error instead of the status: here \<^verbatim>\<open>make install\<close> exits
  with status 2 and prints nothing, and \<open>build_library\<close> returns normally after logging
  that the library was installed successfully. (The first 19 events are those of the
  clean, configure and compile steps.)
\<close>

theorem make_install_status_ignored:
  "(case build_library (ext_exit (\<lambda>cmd. if cmd = [''make'', ''install''] then 2 else 0))
           (bullet_args (main_locals ''5'' None)) (world_of fs_bullet_source)
    of (r, w') \<Rightarrow> (r, drop 19 (trace w')))
   = (Inr (),
      [Log INFO (PyStr ''bullet running make install ...''),
       Log DEBUG (PyStr ''EXECUTING: make install''),
       Exec [''make'', ''install''] (Some 2),
       Log INFO (PyStr ''bullet installed successfully'')])"
  by (simp add: build_defs example_defs io_defs fs_defs path_defs)

subsection \<open>The clean and reset step\<close>

text \<open>
  C5. The claim is that the clean step ends with a checkout and hard reset to the OSG
  branch for \<open>osg-openmw\<close>. The test for \<open>osg\<close> is a second \<^verbatim>\<open>if\<close>, so after the
  checkout and reset to the branch, its \<^verbatim>\<open>else\<close> part runs as well: with the
  arguments \<^verbatim>\<open>main\<close> passes for \<open>osg-openmw\<close> the step ends with a checkout and hard
  reset to \<open>master\<close>, the default of \<open>version\<close>.
\<close>

theorem osg_openmw_clean_ends_at_version:
  "cmds (trace (snd (git_clean_src (ext_exit (\<lambda>_. 0)) (osg_openmw_args (main_locals ''5'' None))
                       (world_of fs_osg_source))))
   = [[''git'', ''checkout'', ''--'', ''.''],
      [''git'', ''clean'', ''-df''],
      [''git'', ''checkout'', ''3.4''],
      [''git'', ''reset'', ''--hard'', ''origin/3.4''],
      [''git'', ''checkout'', ''master''],
      [''git'', ''reset'', ''--hard'', ''master'']]"
  by (simp add: git_clean_src_def example_defs io_defs fs_defs path_defs lib_defaults_def
        dest_of_def OPENMW_OSG_BRANCH_def UPSTREAM_OSG_VERSION_def)

subsection \<open>The system-OSG flag\<close>

lemma keeps_thread: "list_all (keeps P) hs \<Longrightarrow> keeps P (thread hs)"
proof (induction hs)
  case Nil
  then show ?case by (simp add: keeps_def ret_def)
next
  case (Cons h hs)
  then have h: "keeps P h" and hs: "keeps P (thread hs)" by simp_all
  show ?case
    unfolding keeps_def
  proof (intro allI impI)
    fix v w v' w'
    assume P: "P v w" and run: "thread (h # hs) v w = (Inr v', w')"
    from run obtain v1 w1 where 1: "h v w = (Inr v1, w1)" and 2: "thread hs v1 w1 = (Inr v', w')"
      by (auto simp: and_then_def split: prod.splits sum.splits)
    from h P 1 have "P v1 w1" by (auto simp: keeps_def)
    with hs 2 show "P v' w'" by (auto simp: keeps_def)
  qed
qed

lemma thread_establish:
  assumes "list_all (keeps Q) hs" and "h0 \<in> set hs"
    and "\<And>v w v' w'. h0 v w = (Inr v', w') \<Longrightarrow> Q v' w'"
  shows "thread hs v w = (Inr v', w') \<Longrightarrow> Q v' w'"
  using assms(1,2)
proof (induction hs arbitrary: v w)
  case Nil
  then show ?case by simp
next
  case (Cons h hs)
  from Cons.prems(1) obtain v1 w1 where 1: "h v w = (Inr v1, w1)"
    and 2: "thread hs v1 w1 = (Inr v', w')"
    by (auto simp: and_then_def split: prod.splits sum.splits)
  show ?case
  proof (cases "h0 = h")
    case True
    with 1 assms(3) have "Q v1 w1" by blast
    moreover from Cons.prems(2) have "keeps Q (thread hs)" by (simp add: keeps_thread)
    ultimately show ?thesis using 2 by (auto simp: keeps_def)
  next
    case False
    with Cons.prems have "list_all (keeps Q) hs" "h0 \<in> set hs" by simp_all
    from Cons.IH [OF 2 this] show ?thesis .
  qed
qed

lemma keeps_flag:
  "(\<And>v w e. P v w \<Longrightarrow> c \<Longrightarrow> P (upd v) (w\<lparr>trace := trace w @ [e]\<rparr>))
   \<Longrightarrow> keeps P (flag c upd msg)"
  by (auto simp: keeps_def flag_def io_defs split: if_splits)

lemma keeps_flag_silent:
  "(\<And>v w. P v w \<Longrightarrow> c \<Longrightarrow> P (upd v) w) \<Longrightarrow> keeps P (flag_silent c upd)"
  by (auto simp: keeps_def flag_silent_def io_defs split: if_splits)

lemma keeps_patch:
  assumes "\<And>v w e x. P v w \<Longrightarrow> P (v\<lparr>m_patch := x\<rparr>) (w\<lparr>trace := trace w @ [e]\<rparr>)"
  shows "keeps P (\<lambda>v w. if given (p_patch p) then
                if os_path_isfile w (abs_path w (val (p_patch p)))
                then and_then (emit_log (PyStr (''Will attempt to use this patch: ''
                                 @ abs_path w (val (p_patch p)))) INFO False)
                       (\<lambda>_. ret (v\<lparr>m_patch := Some (abs_path w (val (p_patch p)))\<rparr>)) w
                else error_and_die (''The supplied patch isn'' @ sq @ ''t a file!'') w
              else ret v w)"
  using assms by (auto simp: keeps_def io_defs split: if_splits)

lemma keeps_revision:
  assumes "\<And>v w e b r. P v w \<Longrightarrow> P (v\<lparr>m_branch := b, m_rev := r\<rparr>) (w\<lparr>trace := trace w @ [e]\<rparr>)"
    and "\<And>v w e b r. P v w \<Longrightarrow> P (v\<lparr>m_sha := b, m_rev := r\<rparr>) (w\<lparr>trace := trace w @ [e]\<rparr>)"
    and "\<And>v w e b r. P v w \<Longrightarrow> P (v\<lparr>m_tag := b, m_rev := r\<rparr>) (w\<lparr>trace := trace w @ [e]\<rparr>)"
    and "\<And>v w r. P v w \<Longrightarrow> P (v\<lparr>m_rev := r\<rparr>) w"
  shows "keeps P (\<lambda>v. if given (p_branch p) then
              flag True
                (\<lambda>v. if \<not> str_in ''/'' (val (p_branch p))
                      then v\<lparr>m_branch := ''origin/'' @ val (p_branch p),
                             m_rev := ''origin/'' @ val (p_branch p)\<rparr>
                      else v\<lparr>m_branch := val (p_branch p), m_rev := val (p_branch p)\<rparr>)
                (\<lambda>v. ''Branch selected: '' @ m_branch v) v
            else if given (p_sha p) then
              flag True (\<lambda>v. v\<lparr>m_sha := p_sha p, m_rev := val (p_sha p)\<rparr>)
                (\<lambda>v. ''SHA selected: '' @ val (m_sha v)) v
            else if given (p_tag p) then
              flag True (\<lambda>v. v\<lparr>m_tag := p_tag p, m_rev := val (p_tag p)\<rparr>)
                (\<lambda>v. ''Tag selected: '' @ val (m_tag v)) v
            else ret (v\<lparr>m_rev := ''origin/'' @ m_branch v\<rparr>))"
  using assms by (auto simp: keeps_def flag_def io_defs split: if_splits)

lemmas keeps_intros = keeps_flag keeps_flag_silent keeps_patch keeps_revision

lemma main_blocks_keep_system_osg:
  "list_all (keeps (\<lambda>v w. \<not> m_system_osg v)) (main_blocks p)"
  unfolding main_blocks_def
  by (simp only: list.pred_inject, intro conjI TrueI keeps_intros) simp_all

lemma main_blocks_keep_event:
  "list_all (keeps (\<lambda>v w. ev \<in> set (trace w))) (main_blocks p)"
  unfolding main_blocks_def
  by (simp only: list.pred_inject, intro conjI TrueI keeps_intros) simp_all

lemma system_osg_block:
  "flag (p_system_osg p) (\<lambda>v. v\<lparr>m_system_osg := False\<rparr>) (\<lambda>_. ''The system OSG will be used.'')
   \<in> set (main_blocks p)"
  unfolding main_blocks_def by (simp only: list.set_intros insert_iff set_simps simp_thms)

lemma main_flags_logs_system_osg:
  assumes "p_system_osg p" and run: "main_flags p v0 w = (Inr v, w')"
  shows "Log INFO (PyStr ''The system OSG will be used.'') \<in> set (trace w')"
proof (rule thread_establish [OF main_blocks_keep_event system_osg_block _ run [unfolded main_flags_def]])
  fix v w v' w'
  assume "flag (p_system_osg p) (\<lambda>v. v\<lparr>m_system_osg := False\<rparr>)
            (\<lambda>_. ''The system OSG will be used.'') v w = (Inr v', w')"
  with assms(1) show "Log INFO (PyStr ''The system OSG will be used.'') \<in> set (trace w')"
    by (auto simp: flag_def io_defs)
qed

lemma osg_link_args_in_openmw:
  "\<not> m_system_osg v \<Longrightarrow> set (osg_link_args ''/opt/build-openmw/osg-openmw'')
       \<subseteq> set (main_openmw_cmake_args v)"
  by (auto simp: main_openmw_cmake_args_def path_defs)

lemma osg_link_args_in_tes3mp:
  "\<not> m_system_osg v \<Longrightarrow> \<not> m_tes3mp_serveronly v \<Longrightarrow> \<not> getenv_set w ''TES3MP_FORGE''
   \<Longrightarrow> set (osg_link_args ''/opt/build-openmw/osg-openmw'') \<subseteq> set (main_tes3mp_cmake_args w v)"
  by (auto simp: main_tes3mp_cmake_args_def format_openmw_cmake_args_def given_def val_def path_defs)

text \<open>
  C6. Supplying \<^verbatim>\<open>--system-osg\<close> runs the block that logs "The system OSG will be used."
  and assigns \<^verbatim>\<open>False\<close> to \<open>system_osg\<close>, contradicting the help text: after the flags
  are processed \<open>system_osg\<close> is false, so (unless upstream OSG was selected) the OSG step
  builds the OpenMW fork, \<^verbatim>\<open>CMAKE_PREFIX_PATH\<close> starts with the fork's install
  directory, and the cmake arguments of OpenMW, and of a TES3MP client build outside the
  forge container, point at the fork's libraries.
\<close>

theorem system_osg_flag_assigns_False:
  assumes flag: "p_system_osg p"
    and run: "main_flags p (main_locals CPUS OUT_DIR) w = (Inr v, w')"
  shows "Log INFO (PyStr ''The system OSG will be used.'') \<in> set (trace w')
       \<and> \<not> m_system_osg v
       \<and> (\<not> m_build_upstream_osg v \<longrightarrow> main_osg X v = build_library X (osg_openmw_args v))
       \<and> prefix (m_install_prefix v @ ''/osg-openmw'') (main_prefix_path v)
       \<and> set (osg_link_args ''/opt/build-openmw/osg-openmw'') \<subseteq> set (main_openmw_cmake_args v)
       \<and> (\<not> m_tes3mp_serveronly v \<and> \<not> getenv_set w' ''TES3MP_FORGE''
            \<longrightarrow> set (osg_link_args ''/opt/build-openmw/osg-openmw'')
                  \<subseteq> set (main_tes3mp_cmake_args w' v))"
proof -
  have "keeps (\<lambda>v w. \<not> m_system_osg v) (main_flags p)"
    unfolding main_flags_def by (rule keeps_thread) (rule main_blocks_keep_system_osg)
  moreover have "\<not> m_system_osg (main_locals CPUS OUT_DIR)"
    by (simp add: main_locals_def)
  ultimately have off: "\<not> m_system_osg v"
    using run unfolding keeps_def by blast
  from off have "main_osg X v = build_library X (osg_openmw_args v)" if "\<not> m_build_upstream_osg v"
    using that by (simp add: main_osg_def)
  moreover from off have "prefix (m_install_prefix v @ ''/osg-openmw'') (main_prefix_path v)"
    by (simp add: main_prefix_path_def)
  ultimately show ?thesis
    using main_flags_logs_system_osg [OF flag run] off osg_link_args_in_openmw [OF off]
      osg_link_args_in_tes3mp [OF off]
    by blast
qed

text \<open>The flag given alone.\<close>

lemma system_osg_run:
  "main_flags (no_flags\<lparr>p_system_osg := True\<rparr>) (main_locals ''5'' (Some ''/home/user''))
     (world_of fs_osg_source)
   = (Inr ((main_locals ''5'' (Some ''/home/user''))\<lparr>m_rev := ''origin/master''\<rparr>),
      (world_of fs_osg_source)\<lparr>trace := [Log INFO (PyStr ''The system OSG will be used.'')]\<rparr>)"
  by (simp add: main_flags_def main_blocks_def no_flags_def flag_def flag_silent_def given_def
        io_defs main_locals_def world_of_def)

theorem system_osg_flag_assigns_False_witness:
  "p_system_osg (no_flags\<lparr>p_system_osg := True\<rparr>)
   \<and> main_flags (no_flags\<lparr>p_system_osg := True\<rparr>) (main_locals ''5'' (Some ''/home/user''))
       (world_of fs_osg_source)
      = (Inr ((main_locals ''5'' (Some ''/home/user''))\<lparr>m_rev := ''origin/master''\<rparr>),
         (world_of fs_osg_source)\<lparr>trace := [Log INFO (PyStr ''The system OSG will be used.'')]\<rparr>)
   \<and> \<not> m_system_osg ((main_locals ''5'' (Some ''/home/user''))\<lparr>m_rev := ''origin/master''\<rparr>)
   \<and> main_osg (ext_exit (\<lambda>_. 0)) ((main_locals ''5'' (Some ''/home/user''))\<lparr>m_rev := ''origin/master''\<rparr>)
       = build_library (ext_exit (\<lambda>_. 0))
           (osg_openmw_args ((main_locals ''5'' (Some ''/home/user''))\<lparr>m_rev := ''origin/master''\<rparr>))
   \<and> ''-DOSG_LIBRARY=/opt/build-openmw/osg-openmw/lib64/libosg.so''
       \<in> set (main_openmw_cmake_args ((main_locals ''5'' (Some ''/home/user''))\<lparr>m_rev := ''origin/master''\<rparr>))"
proof -
  have f: "p_system_osg (no_flags\<lparr>p_system_osg := True\<rparr>)" by simp
  have up: "\<not> m_build_upstream_osg ((main_locals ''5'' (Some ''/home/user''))\<lparr>m_rev := ''origin/master''\<rparr>)"
    by (simp add: main_locals_def)
  have lib: "''-DOSG_LIBRARY=/opt/build-openmw/osg-openmw/lib64/libosg.so''
       \<in> set (osg_link_args ''/opt/build-openmw/osg-openmw'')"
    by (simp add: osg_link_args_def)
  from system_osg_flag_assigns_False [OF f system_osg_run, of "ext_exit (\<lambda>_. 0)"] f up lib
    system_osg_run
  show ?thesis by blast
qed

subsection \<open>The package list\<close>









subsection \<open>Forced rebuilds\<close>

lemma issues_Nil: "cmds evs = [] \<Longrightarrow> issues [] r evs"
  by (simp add: issues_def)




















lemma abs_path_trace [simp]: "abs_path (w\<lparr>trace := t\<rparr>) p = abs_path w p"
  by (simp add: abs_path_def)





subsection \<open>The packager and an existing archive\<close>

lemma app_and_then:
  "traces m (\<lambda>r evs. True) \<Longrightarrow> (\<And>x. traces (f x) (\<lambda>r evs. True))
   \<Longrightarrow> traces (and_then m f) (\<lambda>r evs. True)"
  by (erule traces_and_then) auto

lemma app_steps_Cons:
  "traces m (\<lambda>r evs. True) \<Longrightarrow> traces (steps ms) (\<lambda>r evs. True)
   \<Longrightarrow> traces (steps (m # ms)) (\<lambda>r evs. True)"
  by (simp add: app_and_then)

lemma app_steps_Nil: "traces (steps []) (\<lambda>r evs. True)"
  by (simp add: traces_ret)

lemma app_ret: "traces (ret x) (\<lambda>r evs. True)"
  by (simp add: traces_ret)

lemma app_throw: "traces (throw e) (\<lambda>r evs. True)"
  by (simp add: traces_throw)

lemma app_emit_log: "traces (emit_log msg lvl q) (\<lambda>r evs. True)"
  by (simp add: traces_emit_log)

lemma app_os_chdir: "traces (os_chdir p) (\<lambda>r evs. True)"
  by (simp add: traces_os_chdir)

lemma app_shutil_rmtree: "traces (shutil_rmtree p) (\<lambda>r evs. True)"
  by (simp add: traces_shutil_rmtree)

lemma app_os_makedirs: "traces (os_makedirs p) (\<lambda>r evs. True)"
  by (rule tracesI) (auto simp: os_makedirs_def split: if_splits)

lemma app_shutil_copy: "traces (shutil_copy src dst) (\<lambda>r evs. True)"
  by (rule tracesI)
     (auto simp: shutil_copy_def Let_def split: if_splits option.splits node.splits)

lemma app_shutil_copytree: "traces (shutil_copytree src dst) (\<lambda>r evs. True)"
  by (rule tracesI)
     (auto simp: shutil_copytree_def split: if_splits option.splits node.splits)

lemma app_mkdtemp: "traces (mkdtemp X sfx) (\<lambda>r evs. True)"
  by (rule tracesI) (auto simp: mkdtemp_def)

lemma app_pkg_system_libs: "traces (pkg_system_libs distro) (\<lambda>r evs. True)"
  by (rule tracesI) (auto simp: pkg_system_libs_def split: if_splits option.splits)

lemma app_for_each:
  "(\<And>x. traces (body x) (\<lambda>r evs. True)) \<Longrightarrow> traces (for_each xs body) (\<lambda>r evs. True)"
  by (induction xs) (simp_all add: app_ret app_and_then)

lemma app_copy_into: "traces (copy_into dst b) (\<lambda>r evs. True)"
  unfolding copy_into_def
  by (intro app_steps_Cons app_steps_Nil app_emit_log app_shutil_copy)

lemma app_if:
  "traces m (\<lambda>r evs. True) \<Longrightarrow> traces m' (\<lambda>r evs. True)
   \<Longrightarrow> traces (if c then m else m') (\<lambda>r evs. True)"
  by simp

lemmas app_intros = app_and_then app_steps_Cons app_steps_Nil app_ret app_throw app_emit_log
  app_os_chdir app_shutil_rmtree app_os_makedirs app_shutil_copy app_shutil_copytree
  app_mkdtemp app_pkg_system_libs app_for_each app_copy_into app_if

lemma wrote_later:
  "traces m (\<lambda>r evs. True) \<Longrightarrow> (\<And>x. traces (f x) (wrote path name))
   \<Longrightarrow> traces (and_then m f) (wrote path name)"
  by (rule traces_and_then [where ?Q1.0 = "\<lambda>r evs. True" and ?Q2.0 = "wrote path name"])
     (auto simp: wrote_def)

lemma wrote_before:
  "traces m (wrote path name) \<Longrightarrow> (\<And>x. traces (f x) (\<lambda>r evs. True))
   \<Longrightarrow> traces (and_then m f) (wrote path name)"
  by (rule traces_and_then [where ?Q1.0 = "wrote path name" and ?Q2.0 = "\<lambda>r evs. True"])
     (auto simp: wrote_def)

lemma wrote_steps_before:
  "traces m (wrote path name) \<Longrightarrow> traces (steps ms) (\<lambda>r evs. True)
   \<Longrightarrow> traces (steps (m # ms)) (wrote path name)"
  by (simp add: wrote_before)

lemma wrote_steps_later:
  "traces m (\<lambda>r evs. True) \<Longrightarrow> traces (steps ms) (wrote path name)
   \<Longrightarrow> traces (steps (m # ms)) (wrote path name)"
  by (simp add: wrote_later)

lemma wrote_tar_write:
  "prefix ''/'' path \<Longrightarrow> traces (tar_write path name) (wrote path name)"
  by (rule tracesI)
     (auto simp: tar_write_def abs_path_def wrote_def Let_def split: if_splits)

lemma wrote_pkg_stage_and_write:
  assumes "prefix ''/'' pkg_path"
  shows "traces (pkg_stage_and_write pkgname distro serveronly pkg_path tmpdir system_libs)
           (wrote pkg_path pkgname)"
proof -
  have last: "traces (steps
           [os_chdir tmpdir,
            emit_log (PyStr (''Creating package now: '' @ pkg_path)) INFO False,
            tar_write pkg_path pkgname,
            os_chdir (cwd w0),
            emit_log (PyStr (''Removing: '' @ tmpdir)) INFO False,
            shutil_rmtree tmpdir]) (wrote pkg_path pkgname)" for w0
    apply (rule wrote_steps_later [OF app_os_chdir])
    apply (rule wrote_steps_later [OF app_emit_log])
    apply (rule wrote_steps_before [OF wrote_tar_write [OF assms]])
    apply (intro app_intros)
    done
  have sl: "traces (case system_libs of
           None \<Rightarrow> throw UnboundLocalError
         | Some libs \<Rightarrow> for_each libs (copy_into (os_path_join (os_path_join tmpdir [pkgname]) [''lib''])))
        (\<lambda>r evs. True)"
    by (cases system_libs) (simp_all add: app_intros)
  show ?thesis
    unfolding pkg_stage_and_write_def
    apply (rule wrote_before)
     apply (rule wrote_steps_later, rule app_emit_log)
     apply (rule wrote_steps_later, rule app_for_each, rule app_copy_into)
     apply (rule wrote_steps_later, rule app_emit_log)
     apply (rule wrote_steps_later, rule sl)
     apply (rule wrote_steps_later, rule app_emit_log)
     apply (rule wrote_steps_later, rule app_for_each, rule app_copy_into)
     apply (rule wrote_steps_later, rule app_emit_log)
     apply (rule wrote_steps_later, rule app_shutil_copytree)
     apply (rule wrote_steps_later, intro app_intros)
     apply (rule wrote_steps_before [OF _ app_steps_Nil])
     apply (rule traces_world [where f = "\<lambda>w0. steps
           [os_chdir tmpdir,
            emit_log (PyStr (''Creating package now: '' @ pkg_path)) INFO False,
            tar_write pkg_path pkgname,
            os_chdir (cwd w0),
            emit_log (PyStr (''Removing: '' @ tmpdir)) INFO False,
            shutil_rmtree tmpdir]"])
     apply (rule last)
    apply (rule app_ret)
    done
qed


lemma join_absolute: "prefix ''/'' od \<Longrightarrow> prefix ''/'' (os_path_join od [x])"
  by (auto simp: os_path_join_def join1_def prefix_def)

lemma refuse_existing_archive:
  assumes "os_path_isdir w od"
    and "os_path_exists w (os_path_join od [pkgname @ ''.tar.bz2''])"
  shows "make_portable_package X pkgname distro False (Some od) so w =
           (Inl (SystemExit 1),
            w\<lparr>trace := trace w @
               [Stderr (''ERROR: Path exists: '' @ os_path_join od [pkgname @ ''.tar.bz2'']
                        @ '' Exiting ...'' @ [CHR 0x0A])]\<rparr>)"
  using assms
  by (simp add: make_portable_package_def need_str_def io_defs)

lemma force_removes_existing_archive:
  assumes "os_path_isdir w od"
    and "os_path_isfile w (os_path_join od [pkgname @ ''.tar.bz2''])"
  shows "make_portable_package X pkgname distro True (Some od) so w =
     and_then (emit_log (PyStr (''Creating a portable package: ''
                 @ os_path_join od [pkgname @ ''.tar.bz2''])) INFO False) (\<lambda>_.
     and_then (mkdtemp X pkgname) (\<lambda>tmpdir.
     and_then (emit_log (PyStr (''Making: '' @ os_path_join tmpdir [pkgname])) INFO False) (\<lambda>_.
     and_then (os_makedirs (os_path_join (os_path_join tmpdir [pkgname]) [''lib''])) (\<lambda>_.
     and_then (pkg_system_libs distro) (\<lambda>system_libs.
       pkg_stage_and_write pkgname distro so
         (os_path_join od [pkgname @ ''.tar.bz2'']) tmpdir system_libs)))))
     (w\<lparr>fs := (fs w)(abs_path w (os_path_join od [pkgname @ ''.tar.bz2'']) := None),
        trace := trace w @
          [Log INFO (PyStr (''Force removing '' @ os_path_join od [pkgname @ ''.tar.bz2''])),
           Remove (abs_path w (os_path_join od [pkgname @ ''.tar.bz2'']))]\<rparr>)"
proof -
  have ex: "os_path_exists w (os_path_join od [pkgname @ ''.tar.bz2''])"
    using assms(2) by (simp add: os_path_isfile_def os_path_exists_def)
  have rm: "os_remove (os_path_join od [pkgname @ ''.tar.bz2''])
              (w\<lparr>trace := trace w @
                [Log INFO (PyStr (''Force removing '' @ os_path_join od [pkgname @ ''.tar.bz2'']))]\<rparr>)
     = (Inr (), w\<lparr>fs := (fs w)(abs_path w (os_path_join od [pkgname @ ''.tar.bz2'']) := None),
        trace := trace w @
          [Log INFO (PyStr (''Force removing '' @ os_path_join od [pkgname @ ''.tar.bz2''])),
           Remove (abs_path w (os_path_join od [pkgname @ ''.tar.bz2'']))]\<rparr>)"
    using assms(2) by (simp add: os_remove_def os_path_isfile_def)
  show ?thesis
    unfolding make_portable_package_def
    apply (subst and_then_def)
    apply (simp only: need_str_def option.case ret_def prod.case sum.case)
    apply (subst and_then_def)
    apply (simp only: assms(1) only_if_def not_True_eq_False if_False ret_def prod.case sum.case)
    apply (subst and_then_def)
    apply (simp only: ex simp_thms if_True if_False steps.simps)
    apply (subst and_then_def [of "emit_log (PyStr (''Force removing '' @ os_path_join od [pkgname @ ''.tar.bz2''])) INFO False"])
    apply (simp only: emit_log_def emit_def simp_thms if_True prod.case sum.case)
    apply (subst and_then_def [of "os_remove (os_path_join od [pkgname @ ''.tar.bz2''])"])
    apply (simp only: rm prod.case sum.case ret_def)
    done
qed

text \<open>
  C3, amended. Let the archive \<open>out_dir/pkgname.tar.bz2\<close> exist as a regular file in an
  existing output directory given by an absolute path. Without \<open>force\<close>,
  \<open>make_portable_package\<close> ends the process with status 1 after the error message and
  changes nothing on disk. With \<open>force\<close> it first removes the archive, and a run that
  returns has written a new archive at that path afterwards; a run in which a later
  staging step raises leaves the archive removed.
\<close>

theorem archive_overwrite_needs_force:
  assumes dir: "os_path_isdir w od" and ab: "prefix ''/'' od"
    and arch: "os_path_isfile w (os_path_join od [pkgname @ ''.tar.bz2''])"
  shows "make_portable_package X pkgname distro False (Some od) so w =
           (Inl (SystemExit 1),
            w\<lparr>trace := trace w @
               [Stderr (''ERROR: Path exists: '' @ os_path_join od [pkgname @ ''.tar.bz2'']
                        @ '' Exiting ...'' @ [CHR 0x0A])]\<rparr>)
       \<and> (\<forall>r w'. make_portable_package X pkgname distro True (Some od) so w = (r, w') \<longrightarrow>
            (\<exists>evs. trace w' = trace w @
                      [Log INFO (PyStr (''Force removing '' @ os_path_join od [pkgname @ ''.tar.bz2''])),
                       Remove (os_path_join od [pkgname @ ''.tar.bz2''])] @ evs
                  \<and> (\<forall>x. r = Inr x \<longrightarrow>
                        TarWrite (os_path_join od [pkgname @ ''.tar.bz2'']) pkgname \<in> set evs)))"
proof (intro conjI allI impI)
  from arch have "os_path_exists w (os_path_join od [pkgname @ ''.tar.bz2''])"
    by (simp add: os_path_isfile_def os_path_exists_def)
  from refuse_existing_archive [OF dir this]
  show "make_portable_package X pkgname distro False (Some od) so w =
           (Inl (SystemExit 1),
            w\<lparr>trace := trace w @
               [Stderr (''ERROR: Path exists: '' @ os_path_join od [pkgname @ ''.tar.bz2'']
                        @ '' Exiting ...'' @ [CHR 0x0A])]\<rparr>)" .
next
  fix r w'
  let ?pkg = "os_path_join od [pkgname @ ''.tar.bz2'']"
  assume run: "make_portable_package X pkgname distro True (Some od) so w = (r, w')"
  have abs: "prefix ''/'' ?pkg" by (rule join_absolute [OF ab])
  then have ap: "abs_path w ?pkg = ?pkg" by (simp add: abs_path_def)
  have "traces (and_then (emit_log (PyStr (''Creating a portable package: '' @ ?pkg)) INFO False) (\<lambda>_.
     and_then (mkdtemp X pkgname) (\<lambda>tmpdir.
     and_then (emit_log (PyStr (''Making: '' @ os_path_join tmpdir [pkgname])) INFO False) (\<lambda>_.
     and_then (os_makedirs (os_path_join (os_path_join tmpdir [pkgname]) [''lib''])) (\<lambda>_.
     and_then (pkg_system_libs distro) (\<lambda>system_libs.
       pkg_stage_and_write pkgname distro so ?pkg tmpdir system_libs))))))
     (wrote ?pkg pkgname)"
    by (intro wrote_later app_intros wrote_pkg_stage_and_write abs)
  from tracesD [OF this run [unfolded force_removes_existing_archive [OF dir arch]]]
  show "\<exists>evs. trace w' = trace w @
                      [Log INFO (PyStr (''Force removing '' @ ?pkg)), Remove ?pkg] @ evs
                  \<and> (\<forall>x. r = Inr x \<longrightarrow> TarWrite ?pkg pkgname \<in> set evs)"
    by (auto simp: ap wrote_def)
qed

end
